theory Spec2Isabelle
  imports Main "HOL-Library.Sublist"
begin

section \<open>The MNIST network-API sample: data model\<close>

text \<open>
  The sample (\<^verbatim>\<open>samples/python/network_api_pytorch_mnist/sample.py\<close>) is a
  straight-line script over three libraries: the model trainer, the inference library
  and the helper module \<^verbatim>\<open>common\<close>. The embedding keeps the script's own control
  flow and data flow. A value that a library hands back is represented by the call
  that produced it together with the arguments the script passed, so that what the
  script gives to each call can be read off the result.
\<close>

datatype error =
    KeyError string | ValueError | TypeError | IndexError | FileNotFoundError string

datatype trt_dtype = float32 | float16 | int8 | int32

datatype pooling_type = PoolingType_MAX | PoolingType_AVERAGE

datatype activation_type = ActivationType_RELU | ActivationType_SIGMOID | ActivationType_TANH

text \<open>An array: its shape and its elements in row-major order.\<close>

record 'f ndarray =
  shape :: "nat list"
  elems :: "'f list"

subsection \<open>\<^verbatim>\<open>class ModelData\<close>\<close>

definition INPUT_NAME :: string where
  "INPUT_NAME = ''data''"

definition INPUT_SHAPE :: "nat list" where
  "INPUT_SHAPE = [1, 1, 28, 28]"

definition OUTPUT_NAME :: string where
  "OUTPUT_NAME = ''prob''"

definition OUTPUT_SIZE :: nat where
  "OUTPUT_SIZE = 10"

definition DTYPE :: trt_dtype where
  "DTYPE = float32"

subsection \<open>The network definition object\<close>

text \<open>
  A tensor of a network is either its \<open>k\<close>-th input or output \<open>j\<close> of its \<open>i\<close>-th
  layer (\<^verbatim>\<open>layer.get_output(j)\<close>).
\<close>

datatype tensor = Network_input nat | Layer_output nat nat

text \<open>
  A layer as the script describes it to the builder. The last component of
  \<open>Convolution\<close> and of \<open>Pooling\<close> is the layer's \<^verbatim>\<open>stride\<close> attribute.
\<close>

datatype 'f layer =
    Convolution tensor nat "nat \<times> nat" "'f ndarray" "'f ndarray" "nat \<times> nat"
  | Pooling tensor pooling_type "nat \<times> nat" "nat \<times> nat"
  | Fully_connected tensor nat "'f ndarray" "'f ndarray"
  | Activation tensor activation_type

record 'f network =
  net_inputs :: "(string \<times> trt_dtype \<times> nat list) list"
  net_layers :: "'f layer list"
  net_names :: "(tensor \<times> string) list"
  net_outputs :: "tensor list"

text \<open>\<^verbatim>\<open>builder.create_network(...)\<close>: a network with nothing in it.\<close>

definition create_network :: "'f network" where
  "create_network = \<lparr>net_inputs = [], net_layers = [], net_names = [], net_outputs = []\<rparr>"

text \<open>
  The calls of the network-definition interface that the script uses. Each one appends
  what it is given to the description and returns a handle: the new input tensor, or the
  index of the new layer. A new convolution or pooling layer has the library's default
  stride \<open>(1, 1)\<close> until the script assigns another.
\<close>

definition add_input ::
  "string \<Rightarrow> trt_dtype \<Rightarrow> nat list \<Rightarrow> 'f network \<Rightarrow> tensor \<times> 'f network" where
  "add_input name dtype shp net =
     (Network_input (length (net_inputs net)),
      net\<lparr>net_inputs := net_inputs net @ [(name, dtype, shp)]\<rparr>)"

definition add_layer :: "'f layer \<Rightarrow> 'f network \<Rightarrow> nat \<times> 'f network" where
  "add_layer l net = (length (net_layers net), net\<lparr>net_layers := net_layers net @ [l]\<rparr>)"

definition add_convolution ::
  "tensor \<Rightarrow> nat \<Rightarrow> nat \<times> nat \<Rightarrow> 'f ndarray \<Rightarrow> 'f ndarray \<Rightarrow> 'f network \<Rightarrow> nat \<times> 'f network" where
  "add_convolution inp num_output_maps kernel_shape kern bias =
     add_layer (Convolution inp num_output_maps kernel_shape kern bias (1, 1))"

definition add_pooling ::
  "tensor \<Rightarrow> pooling_type \<Rightarrow> nat \<times> nat \<Rightarrow> 'f network \<Rightarrow> nat \<times> 'f network" where
  "add_pooling inp ty window_size = add_layer (Pooling inp ty window_size (1, 1))"

definition add_fully_connected ::
  "tensor \<Rightarrow> nat \<Rightarrow> 'f ndarray \<Rightarrow> 'f ndarray \<Rightarrow> 'f network \<Rightarrow> nat \<times> 'f network" where
  "add_fully_connected inp num_outputs kern bias =
     add_layer (Fully_connected inp num_outputs kern bias)"

definition add_activation ::
  "tensor \<Rightarrow> activation_type \<Rightarrow> 'f network \<Rightarrow> nat \<times> 'f network" where
  "add_activation inp ty = add_layer (Activation inp ty)"

fun with_stride :: "nat \<times> nat \<Rightarrow> 'f layer \<Rightarrow> 'f layer" where
  "with_stride s (Convolution i n ks k b _) = Convolution i n ks k b s"
| "with_stride s (Pooling i ty ws _) = Pooling i ty ws s"
| "with_stride s l = l"

text \<open>\<^verbatim>\<open>layer.stride = s\<close>, for the layer with index \<open>i\<close>.\<close>

definition set_stride :: "nat \<Rightarrow> nat \<times> nat \<Rightarrow> 'f network \<Rightarrow> 'f network" where
  "set_stride i s net =
     (if i < length (net_layers net)
      then net\<lparr>net_layers := (net_layers net)[i := with_stride s (net_layers net ! i)]\<rparr>
      else net)"

definition get_output :: "nat \<Rightarrow> nat \<Rightarrow> tensor" where
  "get_output i j = Layer_output i j"

text \<open>\<^verbatim>\<open>tensor.name = s\<close>; the latest assignment is the first entry.\<close>

definition set_name :: "tensor \<Rightarrow> string \<Rightarrow> 'f network \<Rightarrow> 'f network" where
  "set_name t s net = net\<lparr>net_names := (t, s) # net_names net\<rparr>"

definition tensor_name :: "'f network \<Rightarrow> tensor \<Rightarrow> string option" where
  "tensor_name net t = map_of (net_names net) t"

definition mark_output :: "tensor \<Rightarrow> 'f network \<Rightarrow> 'f network" where
  "mark_output t net = net\<lparr>net_outputs := net_outputs net @ [t]\<rparr>"

subsection \<open>Dictionary lookup and sequencing of fallible steps\<close>

text \<open>\<^verbatim>\<open>d[k]\<close> raises \<^verbatim>\<open>KeyError\<close> for a key that is not in the dictionary.\<close>

definition getitem :: "(string \<rightharpoonup> 'a) \<Rightarrow> string \<Rightarrow> error + 'a" where
  "getitem d k = (case d k of None \<Rightarrow> Inl (KeyError k) | Some v \<Rightarrow> Inr v)"

text \<open>An exception ends the function; otherwise the rest runs on the value.\<close>

definition and_then :: "error + 'a \<Rightarrow> ('a \<Rightarrow> error + 'b) \<Rightarrow> error + 'b" where
  "and_then r f = (case r of Inl e \<Rightarrow> Inl e | Inr v \<Rightarrow> f v)"

section \<open>\<^verbatim>\<open>populate_network\<close>\<close>

text \<open>
  The weights arrive as a dictionary from names to tensors;
  \<^verbatim>\<open>.cpu().numpy()\<close> hands the same array on and is not written out.
\<close>

definition populate_network ::
  "'f network \<Rightarrow> (string \<rightharpoonup> 'f ndarray) \<Rightarrow> error + 'f network" where
  "populate_network network weights =
     (let (input_tensor, n1) = add_input INPUT_NAME DTYPE INPUT_SHAPE network in
      and_then (getitem weights ''conv1.weight'') (\<lambda>conv1_w.
      and_then (getitem weights ''conv1.bias'') (\<lambda>conv1_b.
      let (conv1, n2) = add_convolution input_tensor 20 (5, 5) conv1_w conv1_b n1;
          n3 = set_stride conv1 (1, 1) n2;
          (pool1, n4) = add_pooling (get_output conv1 0) PoolingType_MAX (2, 2) n3;
          n5 = set_stride pool1 (2, 2) n4 in
      and_then (getitem weights ''conv2.weight'') (\<lambda>conv2_w.
      and_then (getitem weights ''conv2.bias'') (\<lambda>conv2_b.
      let (conv2, n6) = add_convolution (get_output pool1 0) 50 (5, 5) conv2_w conv2_b n5;
          n7 = set_stride conv2 (1, 1) n6;
          (pool2, n8) = add_pooling (get_output conv2 0) PoolingType_MAX (2, 2) n7;
          n9 = set_stride pool2 (2, 2) n8 in
      and_then (getitem weights ''fc1.weight'') (\<lambda>fc1_w.
      and_then (getitem weights ''fc1.bias'') (\<lambda>fc1_b.
      let (fc1, n10) = add_fully_connected (get_output pool2 0) 500 fc1_w fc1_b n9;
          (relu1, n11) = add_activation (get_output fc1 0) ActivationType_RELU n10 in
      and_then (getitem weights ''fc2.weight'') (\<lambda>fc2_w.
      and_then (getitem weights ''fc2.bias'') (\<lambda>fc2_b.
      let (fc2, n12) = add_fully_connected (get_output relu1 0) OUTPUT_SIZE fc2_w fc2_b n11;
          n13 = set_name (get_output fc2 0) OUTPUT_NAME n12
      in Inr (mark_output (get_output fc2 0) n13))))))))))"

text \<open>The eight names the function looks up, in the order of the lookups.\<close>

definition weight_keys :: "string list" where
  "weight_keys = [''conv1.weight'', ''conv1.bias'', ''conv2.weight'', ''conv2.bias'',
                  ''fc1.weight'', ''fc1.bias'', ''fc2.weight'', ''fc2.bias'']"

text \<open>The description that the function builds in a fresh network from eight arrays.\<close>

definition mnist_graph ::
  "'f ndarray \<Rightarrow> 'f ndarray \<Rightarrow> 'f ndarray \<Rightarrow> 'f ndarray \<Rightarrow>
   'f ndarray \<Rightarrow> 'f ndarray \<Rightarrow> 'f ndarray \<Rightarrow> 'f ndarray \<Rightarrow> 'f network" where
  "mnist_graph c1w c1b c2w c2b f1w f1b f2w f2b =
     \<lparr>net_inputs = [(''data'', float32, [1, 1, 28, 28])],
      net_layers =
        [Convolution (Network_input 0) 20 (5, 5) c1w c1b (1, 1),
         Pooling (Layer_output 0 0) PoolingType_MAX (2, 2) (2, 2),
         Convolution (Layer_output 1 0) 50 (5, 5) c2w c2b (1, 1),
         Pooling (Layer_output 2 0) PoolingType_MAX (2, 2) (2, 2),
         Fully_connected (Layer_output 3 0) 500 f1w f1b,
         Activation (Layer_output 4 0) ActivationType_RELU,
         Fully_connected (Layer_output 5 0) 10 f2w f2b],
      net_names = [(Layer_output 6 0, ''prob'')],
      net_outputs = [Layer_output 6 0]\<rparr>"


section \<open>Engines, serialised plans and the observable state\<close>

record builder_config =
  max_workspace_size :: nat
  flags :: nat

text \<open>
  An engine is known by where it came from: the builder, from a network and a
  configuration, or the runtime, from bytes. A byte string is the sequence of the
  library's serialisations it is made of, in order, so that concatenation is list
  append and the empty byte string is the empty list.
\<close>

datatype 'f engine =
    Built "'f network" builder_config
  | Deserialized "'f blob list"
and 'f blob =
    Serialized_network "'f network" builder_config
  | Serialized_engine "'f engine"

text \<open>
  What the script takes from outside and cannot compute:
  \<^item> the version string of the inference library;
  \<^item> two values of \<^verbatim>\<open>common\<close> and of the builder that the script only passes on;
  \<^item> the weights the trainer hands over after training;
  \<^item> the test case it draws: an array and its label;
  \<^item> the host arrays of the input bindings that \<^verbatim>\<open>common.allocate_buffers\<close> returns
    for an engine, each a one-dimensional array, given by its content;
  \<^item> the conversion from the element type of the image to the element type of the
    buffer that \<^verbatim>\<open>np.copyto\<close> applies to every element, or \<open>None\<close> when the casting
    rule of \<^verbatim>\<open>np.copyto\<close> does not allow it;
  \<^item> the values that are not a number;
  \<^item> what the device returns for an engine and the contents of the input buffers: the
    host arrays of the output bindings.
\<close>

record 'f externals =
  trt_version :: string
  EXPLICIT_BATCH :: nat
  default_config :: builder_config
  trained_weights :: "string \<rightharpoonup> 'f ndarray"
  random_testcase :: "'f ndarray \<times> nat"
  allocate_buffers :: "'f engine \<Rightarrow> 'f list list"
  cast_to_buffer :: "('f \<Rightarrow> 'f) option"
  isnan :: "'f \<Rightarrow> bool"
  execute :: "'f engine \<Rightarrow> 'f list list \<Rightarrow> 'f list list"

text \<open>
  Every call the bodies of \<^verbatim>\<open>build_engine\<close>, \<^verbatim>\<open>load_random_test_case\<close> and
  \<^verbatim>\<open>main\<close> make, with the arguments that matter, in the order of execution.
\<close>

datatype 'f step =
    Add_help string
  | MnistModel
  | Learn
  | Get_weights
  | Builder
  | Create_network nat
  | Create_builder_config
  | Runtime
  | Populate_network
  | Build_engine "'f network" builder_config
  | Build_serialized_network "'f network" builder_config
  | Deserialize_cuda_engine "'f blob list"
  | Serialize "'f engine"
  | Open_file string string
  | Write_file string "'f blob list"
  | Read_file string
  | Close_file string
  | Allocate_buffers "'f engine"
  | Create_execution_context "'f engine"
  | Get_random_testcase
  | Copyto "'f list" "'f ndarray"
  | Do_inference_v2 "'f engine" "'f list list"
  | Argmax "'f list"
  | Print string

record 'f world =
  calls :: "'f step list"
  files :: "string \<rightharpoonup> 'f blob list"
  stdout :: "string list"

definition log :: "'f step \<Rightarrow> 'f world \<Rightarrow> 'f world" where
  "log s w = w\<lparr>calls := calls w @ [s]\<rparr>"

subsection \<open>Files\<close>

text \<open>A file handle is the path it was opened on; mode \<^verbatim>\<open>wb\<close> creates or empties the file.\<close>

definition open_wb :: "string \<Rightarrow> 'f world \<Rightarrow> string \<times> 'f world" where
  "open_wb path w = (path, log (Open_file path ''wb'') (w\<lparr>files := (files w)(path \<mapsto> [])\<rparr>))"

definition open_rb :: "string \<Rightarrow> 'f world \<Rightarrow> (error + string) \<times> 'f world" where
  "open_rb path w =
     (case files w path of
        None \<Rightarrow> (Inl (FileNotFoundError path), log (Open_file path ''rb'') w)
      | Some _ \<Rightarrow> (Inr path, log (Open_file path ''rb'') w))"

definition write_file :: "string \<Rightarrow> 'f blob list \<Rightarrow> 'f world \<Rightarrow> 'f world" where
  "write_file f b w =
     log (Write_file f b)
       (w\<lparr>files := (files w)(f \<mapsto> (case files w f of None \<Rightarrow> b | Some old \<Rightarrow> old @ b))\<rparr>)"

definition read_file :: "string \<Rightarrow> 'f world \<Rightarrow> 'f blob list \<times> 'f world" where
  "read_file f w = ((case files w f of None \<Rightarrow> [] | Some b \<Rightarrow> b), log (Read_file f) w)"

definition close_file :: "string \<Rightarrow> 'f world \<Rightarrow> 'f world" where
  "close_file f w = log (Close_file f) w"

subsection \<open>The library calls on engines\<close>

definition serialize :: "'f engine \<Rightarrow> 'f world \<Rightarrow> 'f blob list \<times> 'f world" where
  "serialize e w = ([Serialized_engine e], log (Serialize e) w)"

definition deserialize_cuda_engine :: "'f blob list \<Rightarrow> 'f world \<Rightarrow> 'f engine \<times> 'f world" where
  "deserialize_cuda_engine b w = (Deserialized b, log (Deserialize_cuda_engine b) w)"

definition builder_build_engine ::
  "'f network \<Rightarrow> builder_config \<Rightarrow> 'f world \<Rightarrow> 'f engine \<times> 'f world" where
  "builder_build_engine net cfg w = (Built net cfg, log (Build_engine net cfg) w)"

definition build_serialized_network ::
  "'f network \<Rightarrow> builder_config \<Rightarrow> 'f world \<Rightarrow> 'f blob list \<times> 'f world" where
  "build_serialized_network net cfg w =
     ([Serialized_network net cfg], log (Build_serialized_network net cfg) w)"

section \<open>Module level and \<^verbatim>\<open>build_engine\<close>\<close>

definition startswith :: "string \<Rightarrow> string \<Rightarrow> bool" where
  "startswith s p = (take (length p) s = p)"

definition trt_v7 :: "'f externals \<Rightarrow> bool" where
  "trt_v7 ext = (if startswith (trt_version ext) ''7'' then True else False)"

text \<open>
  Modelled from the spec: \<^verbatim>\<open>common.GiB\<close>, a function of the helper module
  \<^verbatim>\<open>common\<close>, which is not among the sources. The specification says that the budget
  the repository supplies is fixed at 1 GiB, so \<open>GiB n\<close> is \<open>n\<close> times \<open>2 ^ 30\<close> bytes.
\<close>

definition GiB :: "nat \<Rightarrow> nat" where
  "GiB val = val * 2 ^ 30"

definition build_engine ::
  "'f externals \<Rightarrow> (string \<rightharpoonup> 'f ndarray) \<Rightarrow> 'f world \<Rightarrow> (error + 'f engine) \<times> 'f world" where
  "build_engine ext weights w =
     (let w1 = log Builder w;
          (network, w2) = (create_network, log (Create_network (EXPLICIT_BATCH ext)) w1);
          (config, w3) = (default_config ext, log Create_builder_config w2);
          w4 = log Runtime w3;
          config = config\<lparr>max_workspace_size := GiB 1\<rparr>;
          w5 = log Populate_network w4
      in case populate_network network weights of
           Inl e \<Rightarrow> (Inl e, w5)
         | Inr network \<Rightarrow>
             if trt_v7 ext then
               (let (plan, w6) = builder_build_engine network config w5 in (Inr plan, w6))
             else
               (let (plan, w6) = build_serialized_network network config w5;
                    (engine, w7) = deserialize_cuda_engine plan w6
                in (Inr engine, w7)))"

section \<open>\<^verbatim>\<open>load_random_test_case\<close> and \<^verbatim>\<open>main\<close>\<close>

text \<open>
  \<^verbatim>\<open>np.copyto(dst, src)\<close> for a one-dimensional destination. The casting rule is
  checked first (\<^verbatim>\<open>TypeError\<close>). A source with no dimension, or with one element
  once its leading dimensions of extent 1 are dropped, is broadcast to every entry of
  the destination; a source that has then the one dimension of the destination is
  copied entry by entry; any other shape cannot be broadcast (\<^verbatim>\<open>ValueError\<close>). Every
  element is converted to the element type of the destination. An array has as many
  elements as its shape says; for a record that has not, the model raises.
\<close>

fun strip_unit_dims :: "nat list \<Rightarrow> nat list" where
  "strip_unit_dims (d # e # ds) = (if d = 1 then strip_unit_dims (e # ds) else d # e # ds)"
| "strip_unit_dims ds = ds"

definition copyto :: "('f \<Rightarrow> 'f) option \<Rightarrow> 'f list \<Rightarrow> 'f ndarray \<Rightarrow> error + 'f list" where
  "copyto cast dst src =
     (case cast of
        None \<Rightarrow> Inl TypeError
      | Some c \<Rightarrow>
          if length (elems src) \<noteq> prod_list (shape src) then Inl ValueError
          else if shape src = [] \<or> strip_unit_dims (shape src) = [1]
            then Inr (replicate (length dst) (c (hd (elems src))))
          else if strip_unit_dims (shape src) = [length dst] then Inr (map c (elems src))
          else Inl ValueError)"

text \<open>
  The function draws a test case, copies the image into the buffer it is given and
  returns the expected label. The buffer is changed in place; the model returns its new
  content with the label.
\<close>

definition load_random_test_case ::
  "'f externals \<Rightarrow> 'f list \<Rightarrow> 'f world \<Rightarrow> (error + nat \<times> 'f list) \<times> 'f world" where
  "load_random_test_case ext pagelocked_buffer w =
     (let ((img, expected_output), w1) = (random_testcase ext, log Get_random_testcase w);
          w2 = log (Copyto pagelocked_buffer img) w1
      in case copyto (cast_to_buffer ext) pagelocked_buffer img of
           Inl e \<Rightarrow> (Inl e, w2)
         | Inr buffer \<Rightarrow> (Inr (expected_output, buffer), w2))"

text \<open>
  \<^verbatim>\<open>np.argmax\<close> of a one-dimensional array: an empty array is an error; the scan
  keeps the first entry that is greater than all before it, and stops at the first
  entry that is not a number, whose index is then the result.
\<close>

fun argmax_from :: "('a \<Rightarrow> bool) \<Rightarrow> 'a::linorder \<Rightarrow> nat \<Rightarrow> nat \<Rightarrow> 'a list \<Rightarrow> nat" where
  "argmax_from nan best at i [] = at"
| "argmax_from nan best at i (x # xs) =
     (if nan best then at
      else if nan x \<or> best < x then argmax_from nan x i (Suc i) xs
      else argmax_from nan best at (Suc i) xs)"

definition argmax :: "('a \<Rightarrow> bool) \<Rightarrow> 'a::linorder list \<Rightarrow> error + nat" where
  "argmax nan xs =
     (case xs of [] \<Rightarrow> Inl ValueError | x # rest \<Rightarrow> Inr (argmax_from nan x 0 1 rest))"

text \<open>\<^verbatim>\<open>str\<close> of a non-negative integer: its decimal digits.\<close>

definition digit :: "nat \<Rightarrow> char" where
  "digit d = ''0123456789'' ! d"

fun str :: "nat \<Rightarrow> string" where
  "str n = (if n < 10 then [digit n] else str (n div 10) @ [digit (n mod 10)])"

declare str.simps [simp del]

definition print :: "string \<Rightarrow> 'f world \<Rightarrow> 'f world" where
  "print s w = log (Print s) (w\<lparr>stdout := stdout w @ [s]\<rparr>)"

text \<open>
  In \<^verbatim>\<open>main\<close>, \<^verbatim>\<open>inputs[0]\<close> is evaluated before the call of
  \<^verbatim>\<open>load_random_test_case\<close> and is an \<^verbatim>\<open>IndexError\<close> when there is no input
  buffer; the unpacking \<^verbatim>\<open>[output] = ...\<close> is a \<^verbatim>\<open>ValueError\<close> unless there is
  exactly one output. The variable \<^verbatim>\<open>case_num\<close> is \<open>case_number\<close> here. A call
  into the trainer or the inference library that raises ends the run at that call;
  the model follows the runs in which these calls return.
\<close>

definition main :: "('f::linorder) externals \<Rightarrow> 'f world \<Rightarrow> (error + unit) \<times> 'f world" where
  "main ext w0 =
     (let w1 = log (Add_help ''Runs an MNIST network using a PyTorch model'') w0;
          w2 = log MnistModel w1;
          w3 = log Learn w2;
          (weights, w4) = (trained_weights ext, log Get_weights w3)
      in case build_engine ext weights w4 of
           (Inl e, w5) \<Rightarrow> (Inl e, w5)
         | (Inr engine, w5) \<Rightarrow>
            (let (f, w6) = open_wb ''mnist.trt'' w5;
                 (bytes, w7) = serialize engine w6;
                 w8 = write_file f bytes w7;
                 w9 = close_file f w8
             in case open_rb ''mnist.trt'' w9 of
                  (Inl e, w10) \<Rightarrow> (Inl e, w10)
                | (Inr f, w10) \<Rightarrow>
                   (let w11 = log Runtime w10;
                        (bytes, w12) = read_file f w11;
                        (engine, w13) = deserialize_cuda_engine bytes w12;
                        w14 = close_file f w13;
                        (inputs, w15) = (allocate_buffers ext engine,
                                         log (Allocate_buffers engine) w14);
                        (context, w16) = (engine, log (Create_execution_context engine) w15)
                    in case inputs of
                         [] \<Rightarrow> (Inl IndexError, w16)
                       | host # others \<Rightarrow>
                          (case load_random_test_case ext host w16 of
                             (Inl e, w17) \<Rightarrow> (Inl e, w17)
                           | (Inr (case_number, buffer), w17) \<Rightarrow>
                              (let inputs = buffer # others;
                                   (outs, w18) = (execute ext context inputs,
                                                  log (Do_inference_v2 context inputs) w17)
                               in case outs of
                                    [output] \<Rightarrow>
                                      (case argmax (isnan ext) output of
                                         Inl e \<Rightarrow> (Inl e, log (Argmax output) w18)
                                       | Inr pred \<Rightarrow>
                                           (let w19 = log (Argmax output) w18;
                                                w20 =
                                                  print (''Test Case: '' @ str case_number) w19;
                                                w21 = print (''Prediction: '' @ str pred) w20
                                            in (Inr (), w21)))
                                  | _ \<Rightarrow> (Inl ValueError, w18))))))"

text \<open>The state the script starts from: nothing called or printed yet.\<close>

definition initial_world :: "(string \<rightharpoonup> 'f blob list) \<Rightarrow> 'f world" where
  "initial_world fs = \<lparr>calls = [], files = fs, stdout = []\<rparr>"

section \<open>Observations on a run\<close>

text \<open>The first of the eight names that the dictionary lacks, if there is one.\<close>

definition first_missing :: "(string \<rightharpoonup> 'a) \<Rightarrow> string option" where
  "first_missing weights = find (\<lambda>k. weights k = None) weight_keys"

text \<open>
  The stages of a run. \<open>stage_of\<close> gives the stage that a call of the script carries
  out; the calls that only create an object or open and close a file carry out none.
  The script has no statement that relates the prediction to the expected label, so no
  call is mapped to \<open>Compare_with_label\<close>.
\<close>

datatype stage =
    Train | Extract_weights | Build_graph | Compile_engine | Serialize_to_disk
  | Deserialize_from_disk | Allocate_stage | Draw_test_case | Run_inference | Take_argmax
  | Compare_with_label | Print_line

fun stage_of :: "'f step \<Rightarrow> stage option" where
  "stage_of Learn = Some Train"
| "stage_of Get_weights = Some Extract_weights"
| "stage_of Populate_network = Some Build_graph"
| "stage_of (Build_engine _ _) = Some Compile_engine"
| "stage_of (Build_serialized_network _ _) = Some Compile_engine"
| "stage_of (Write_file _ _) = Some Serialize_to_disk"
| "stage_of (Read_file _) = Some Deserialize_from_disk"
| "stage_of (Allocate_buffers _) = Some Allocate_stage"
| "stage_of Get_random_testcase = Some Draw_test_case"
| "stage_of (Do_inference_v2 _ _) = Some Run_inference"
| "stage_of (Argmax _) = Some Take_argmax"
| "stage_of (Print _) = Some Print_line"
| "stage_of _ = None"

definition stages :: "'f step list \<Rightarrow> stage list" where
  "stages l = List.map_filter stage_of l"

text \<open>
  The sequence of the driver in the words of the specification: train, extract weights,
  build graph, compile engine, serialize to disk, deserialize from disk, allocate
  buffers, draw one random test case, run inference, compare the predicted class (the
  arg-max of the output vector) against the expected label, print both (two lines).
\<close>

definition spec_driver_sequence :: "stage list" where
  "spec_driver_sequence =
     [Train, Extract_weights, Build_graph, Compile_engine, Serialize_to_disk,
      Deserialize_from_disk, Allocate_stage, Draw_test_case, Run_inference, Take_argmax,
      Compare_with_label, Print_line, Print_line]"

text \<open>The workspace budget of the configuration that a compile call is given.\<close>

fun compile_budget :: "'f step \<Rightarrow> nat option" where
  "compile_budget (Build_engine _ cfg) = Some (max_workspace_size cfg)"
| "compile_budget (Build_serialized_network _ cfg) = Some (max_workspace_size cfg)"
| "compile_budget _ = None"

definition budgets :: "'f step list \<Rightarrow> nat list" where
  "budgets l = List.map_filter compile_budget l"

text \<open>
  The engine that a call allocates buffers for, creates an execution context of, or
  runs the inference on.
\<close>

fun engine_used :: "'f step \<Rightarrow> 'f engine option" where
  "engine_used (Allocate_buffers e) = Some e"
| "engine_used (Create_execution_context e) = Some e"
| "engine_used (Do_inference_v2 e _) = Some e"
| "engine_used _ = None"

definition engines_used :: "'f step list \<Rightarrow> 'f engine list" where
  "engines_used l = List.map_filter engine_used l"

fun opened :: "'f step \<Rightarrow> (string \<times> string) option" where
  "opened (Open_file path mode) = Some (path, mode)"
| "opened _ = None"

definition files_opened :: "'f step list \<Rightarrow> (string \<times> string) list" where
  "files_opened l = List.map_filter opened l"

text \<open>
  The shapes that the specification gives for the eight tensors (20x1x5x5, 20;
  50x20x5x5, 50; 500x800, 500; 10x500, 10), and the weight sets that have all eight
  tensors in these shapes.
\<close>

definition spec_weight_shapes :: "(string \<times> nat list) list" where
  "spec_weight_shapes =
     [(''conv1.weight'', [20, 1, 5, 5]), (''conv1.bias'', [20]),
      (''conv2.weight'', [50, 20, 5, 5]), (''conv2.bias'', [50]),
      (''fc1.weight'', [500, 800]), (''fc1.bias'', [500]),
      (''fc2.weight'', [10, 500]), (''fc2.bias'', [10])]"

definition shapes_as_specified :: "(string \<rightharpoonup> 'f ndarray) \<Rightarrow> bool" where
  "shapes_as_specified weights =
     list_all (\<lambda>(k, s). case weights k of None \<Rightarrow> False | Some a \<Rightarrow> shape a = s)
       spec_weight_shapes"

subsection \<open>Element types and shapes of the tensors of a description\<close>

text \<open>
  The inference library derives an element type and a shape for every tensor of a
  description; the script sets neither on any layer output. For the four kinds of
  layer that the script uses, on an input with the four dimensions batch, channels,
  height and width, and with no padding:
  \<^item> a convolution with \<open>k\<close> output maps, kernel \<open>kh x kw\<close> and stride \<open>sh x sw\<close> turns
    height \<open>h\<close> into \<open>(h - kh) div sh + 1\<close>, the width likewise, and the channels into \<open>k\<close>;
  \<^item> a pooling layer does the same with its window and keeps the channels;
  \<^item> a fully-connected layer with \<open>k\<close> outputs gives \<open>k\<close> channels of height and width 1;
  \<^item> an activation keeps the shape.
  None of them changes the element type. A layer whose input has no such shape, or
  whose window does not fit, has no output shape.
\<close>

type_synonym tensor_info = "trt_dtype \<times> nat list"

fun layer_input :: "'f layer \<Rightarrow> tensor" where
  "layer_input (Convolution t _ _ _ _ _) = t"
| "layer_input (Pooling t _ _ _) = t"
| "layer_input (Fully_connected t _ _ _) = t"
| "layer_input (Activation t _) = t"

definition window_extent :: "nat \<Rightarrow> nat \<Rightarrow> nat \<Rightarrow> nat option" where
  "window_extent h k s = (if 0 < k \<and> k \<le> h \<and> 0 < s then Some ((h - k) div s + 1) else None)"

fun output_info :: "'f layer \<Rightarrow> tensor_info \<Rightarrow> tensor_info option" where
  "output_info (Convolution _ k (kh, kw) _ _ (sh, sw)) (dt, [n, c, h, w]) =
     (case (window_extent h kh sh, window_extent w kw sw) of
        (Some h', Some w') \<Rightarrow> Some (dt, [n, k, h', w'])
      | _ \<Rightarrow> None)"
| "output_info (Pooling _ _ (kh, kw) (sh, sw)) (dt, [n, c, h, w]) =
     (case (window_extent h kh sh, window_extent w kw sw) of
        (Some h', Some w') \<Rightarrow> Some (dt, [n, c, h', w'])
      | _ \<Rightarrow> None)"
| "output_info (Fully_connected _ k _ _) (dt, [n, c, h, w]) = Some (dt, [n, k, 1, 1])"
| "output_info (Activation _ _) (dt, shp) = Some (dt, shp)"
| "output_info _ _ = None"

definition lookup_tensor ::
  "(string \<times> trt_dtype \<times> nat list) list \<Rightarrow> tensor_info option list \<Rightarrow> tensor \<Rightarrow>
   tensor_info option" where
  "lookup_tensor ins outs t =
     (case t of
        Network_input k \<Rightarrow> if k < length ins then Some (snd (ins ! k)) else None
      | Layer_output i j \<Rightarrow> if i < length outs \<and> j = 0 then outs ! i else None)"

text \<open>The layers in the order they were added; \<open>known\<close> holds the outputs of those before.\<close>

fun infer_layers ::
  "(string \<times> trt_dtype \<times> nat list) list \<Rightarrow> 'f layer list \<Rightarrow> tensor_info option list \<Rightarrow>
   tensor_info option list" where
  "infer_layers ins [] known = known"
| "infer_layers ins (l # ls) known =
     infer_layers ins ls
       (known @ [case lookup_tensor ins known (layer_input l) of
                   None \<Rightarrow> None
                 | Some info \<Rightarrow> output_info l info])"

definition tensor_info :: "'f network \<Rightarrow> tensor \<Rightarrow> tensor_info option" where
  "tensor_info net t =
     lookup_tensor (net_inputs net) (infer_layers (net_inputs net) (net_layers net) []) t"

subsection \<open>Concrete inputs\<close>

definition zeros :: "nat list \<Rightarrow> int ndarray" where
  "zeros shp = \<lparr>shape = shp, elems = replicate (prod_list shp) 0\<rparr>"

definition sample_weights :: "string \<rightharpoonup> int ndarray" where
  "sample_weights =
     map_of [(''conv1.weight'', zeros [20, 1, 5, 5]), (''conv1.bias'', zeros [20]),
             (''conv2.weight'', zeros [50, 20, 5, 5]), (''conv2.bias'', zeros [50]),
             (''fc1.weight'', zeros [500, 800]), (''fc1.bias'', zeros [500]),
             (''fc2.weight'', zeros [10, 500]), (''fc2.bias'', zeros [10])]"

text \<open>All eight tensors are there, but the first convolution kernel has shape \<open>[3]\<close>.\<close>

definition mismatched_weights :: "string \<rightharpoonup> int ndarray" where
  "mismatched_weights = sample_weights(''conv1.weight'' \<mapsto> zeros [3])"

text \<open>The second convolution's bias is not there.\<close>

definition incomplete_weights :: "string \<rightharpoonup> int ndarray" where
  "incomplete_weights = sample_weights(''conv2.bias'' := None)"

definition blank_image :: "int ndarray" where
  "blank_image = zeros [784]"

definition blank_buffer :: "int list" where
  "blank_buffer = replicate 784 0"

text \<open>
  An environment with a given library version: the test case drawn is an array of 784
  entries with label 7, there is one input buffer of 784 entries, and the device answers
  with one vector of ten scores whose greatest entry is at index 3.
\<close>

definition sample_externals :: "string \<Rightarrow> int externals" where
  "sample_externals version =
     \<lparr>trt_version = version, EXPLICIT_BATCH = 1,
      default_config = \<lparr>max_workspace_size = 0, flags = 0\<rparr>,
      trained_weights = sample_weights,
      random_testcase = (blank_image, 7),
      allocate_buffers = (\<lambda>e. [blank_buffer]),
      cast_to_buffer = Some (\<lambda>x. x),
      isnan = (\<lambda>x. False),
      execute = (\<lambda>e inputs. [[0, 1, 0, 9, 0, 0, 0, 2, 0, 0]])\<rparr>"

section \<open>Auxiliary facts\<close>

lemma populate_network_fresh:
  assumes "weights ''conv1.weight'' = Some c1w" "weights ''conv1.bias'' = Some c1b"
    "weights ''conv2.weight'' = Some c2w" "weights ''conv2.bias'' = Some c2b"
    "weights ''fc1.weight'' = Some f1w" "weights ''fc1.bias'' = Some f1b"
    "weights ''fc2.weight'' = Some f2w" "weights ''fc2.bias'' = Some f2b"
  shows "populate_network create_network weights =
           Inr (mnist_graph c1w c1b c2w c2b f1w f1b f2w f2b)"
  using assms
  by (simp add: populate_network_def getitem_def and_then_def create_network_def
      add_input_def add_convolution_def add_pooling_def add_fully_connected_def
      add_activation_def add_layer_def set_stride_def get_output_def set_name_def
      mark_output_def mnist_graph_def INPUT_NAME_def INPUT_SHAPE_def DTYPE_def
      OUTPUT_NAME_def OUTPUT_SIZE_def)

lemma populate_network_missing:
  assumes "first_missing weights = Some k"
  shows "populate_network network weights = Inl (KeyError k)"
  using assms
  by (auto simp add: populate_network_def getitem_def and_then_def first_missing_def
      weight_keys_def add_input_def Let_def split_beta split: option.splits if_splits)

lemma first_missing_Some:
  assumes "k \<in> set weight_keys" "weights k = None"
  shows "\<exists>k'. first_missing weights = Some k'"
  using assms by (auto simp add: first_missing_def weight_keys_def)

lemma populate_network_Inr_keys:
  assumes "populate_network network weights = Inr net"
  shows "\<exists>c1w c1b c2w c2b f1w f1b f2w f2b.
           weights ''conv1.weight'' = Some c1w \<and> weights ''conv1.bias'' = Some c1b \<and>
           weights ''conv2.weight'' = Some c2w \<and> weights ''conv2.bias'' = Some c2b \<and>
           weights ''fc1.weight'' = Some f1w \<and> weights ''fc1.bias'' = Some f1b \<and>
           weights ''fc2.weight'' = Some f2w \<and> weights ''fc2.bias'' = Some f2b"
  using assms
  by (auto simp add: populate_network_def getitem_def and_then_def add_input_def Let_def
      split_beta split: option.splits)

lemmas engine_call_defs = builder_build_engine_def build_serialized_network_def
  deserialize_cuda_engine_def serialize_def

lemmas file_defs = open_wb_def open_rb_def write_file_def read_file_def close_file_def

lemma build_engine_fail:
  assumes "populate_network create_network weights = Inl e"
  shows "build_engine ext weights w =
           (Inl e,
            w\<lparr>calls := calls w @ [Builder, Create_network (EXPLICIT_BATCH ext),
                                   Create_builder_config, Runtime, Populate_network]\<rparr>)"
  using assms by (simp add: build_engine_def log_def)

lemma build_engine_v7:
  assumes "populate_network create_network weights = Inr net" "trt_v7 ext"
  shows "build_engine ext weights w =
           (Inr (Built net ((default_config ext)\<lparr>max_workspace_size := GiB 1\<rparr>)),
            w\<lparr>calls := calls w @ [Builder, Create_network (EXPLICIT_BATCH ext),
                 Create_builder_config, Runtime, Populate_network,
                 Build_engine net ((default_config ext)\<lparr>max_workspace_size := GiB 1\<rparr>)]\<rparr>)"
  using assms by (simp add: build_engine_def log_def engine_call_defs Let_def)

lemma build_engine_v8:
  assumes "populate_network create_network weights = Inr net" "\<not> trt_v7 ext"
  shows "build_engine ext weights w =
           (Inr (Deserialized
                  [Serialized_network net ((default_config ext)\<lparr>max_workspace_size := GiB 1\<rparr>)]),
            w\<lparr>calls := calls w @ [Builder, Create_network (EXPLICIT_BATCH ext),
                 Create_builder_config, Runtime, Populate_network,
                 Build_serialized_network net ((default_config ext)\<lparr>max_workspace_size := GiB 1\<rparr>),
                 Deserialize_cuda_engine
                   [Serialized_network net ((default_config ext)\<lparr>max_workspace_size := GiB 1\<rparr>)]]\<rparr>)"
  using assms by (simp add: build_engine_def log_def engine_call_defs Let_def)


lemma main_build_fails:
  assumes "populate_network create_network (trained_weights ext) = Inl e"
  shows "main ext w =
           (Inl e,
            w\<lparr>calls := calls w @
                   [Add_help ''Runs an MNIST network using a PyTorch model'',
                    MnistModel, Learn, Get_weights,
                    Builder, Create_network (EXPLICIT_BATCH ext),
                    Create_builder_config, Runtime, Populate_network]\<rparr>)"
  by (simp add: main_def build_engine_fail [OF assms] log_def)

lemma main_after_build:
  assumes b: "build_engine ext (trained_weights ext)
             (w\<lparr>calls := calls w @ [Add_help ''Runs an MNIST network using a PyTorch model'',
                                    MnistModel, Learn, Get_weights]\<rparr>) = (Inr e0, w5)"
    and i: "allocate_buffers ext (Deserialized [Serialized_engine e0]) = host # others"
    and t: "random_testcase ext = (img, label)"
    and c: "copyto (cast_to_buffer ext) host img = Inr buffer"
    and x: "execute ext (Deserialized [Serialized_engine e0]) (buffer # others) = [out]"
    and a: "argmax (isnan ext) out = Inr pred"
  shows "main ext w =
           (Inr (),
            w5\<lparr>calls := calls w5 @
                   [Open_file ''mnist.trt'' ''wb'', Serialize e0,
                    Write_file ''mnist.trt'' [Serialized_engine e0], Close_file ''mnist.trt'',
                    Open_file ''mnist.trt'' ''rb'', Runtime, Read_file ''mnist.trt'',
                    Deserialize_cuda_engine [Serialized_engine e0], Close_file ''mnist.trt'',
                    Allocate_buffers (Deserialized [Serialized_engine e0]),
                    Create_execution_context (Deserialized [Serialized_engine e0]),
                    Get_random_testcase, Copyto host img,
                    Do_inference_v2 (Deserialized [Serialized_engine e0]) (buffer # others),
                    Argmax out,
                    Print (''Test Case: '' @ str label), Print (''Prediction: '' @ str pred)],
                files := (files w5)(''mnist.trt'' \<mapsto> [Serialized_engine e0]),
                stdout := stdout w5 @ [''Test Case: '' @ str label, ''Prediction: '' @ str pred]\<rparr>)"
  using b i t c x a unfolding main_def
  by (simp add: log_def file_defs engine_call_defs load_random_test_case_def print_def Let_def)

text \<open>Every way a run can go on once \<^verbatim>\<open>build_engine\<close> has returned an engine.\<close>

lemma main_after_build_cases:
  assumes b: "build_engine ext (trained_weights ext)
             (w\<lparr>calls := calls w @ [Add_help ''Runs an MNIST network using a PyTorch model'',
                                    MnistModel, Learn, Get_weights]\<rparr>) = (Inr e0, w5)"
  obtains (no_input)
      "allocate_buffers ext (Deserialized [Serialized_engine e0]) = []"
      "main ext w =
           (Inl IndexError,
            w5\<lparr>calls := calls w5 @
                   [Open_file ''mnist.trt'' ''wb'', Serialize e0,
                    Write_file ''mnist.trt'' [Serialized_engine e0], Close_file ''mnist.trt'',
                    Open_file ''mnist.trt'' ''rb'', Runtime, Read_file ''mnist.trt'',
                    Deserialize_cuda_engine [Serialized_engine e0], Close_file ''mnist.trt'',
                    Allocate_buffers (Deserialized [Serialized_engine e0]),
                    Create_execution_context (Deserialized [Serialized_engine e0])],
                files := (files w5)(''mnist.trt'' \<mapsto> [Serialized_engine e0])\<rparr>)"
  | (copy_fails) host others img label e where
      "allocate_buffers ext (Deserialized [Serialized_engine e0]) = host # others"
      "random_testcase ext = (img, label)"
      "copyto (cast_to_buffer ext) host img = Inl e"
      "main ext w =
           (Inl e,
            w5\<lparr>calls := calls w5 @
                   [Open_file ''mnist.trt'' ''wb'', Serialize e0,
                    Write_file ''mnist.trt'' [Serialized_engine e0], Close_file ''mnist.trt'',
                    Open_file ''mnist.trt'' ''rb'', Runtime, Read_file ''mnist.trt'',
                    Deserialize_cuda_engine [Serialized_engine e0], Close_file ''mnist.trt'',
                    Allocate_buffers (Deserialized [Serialized_engine e0]),
                    Create_execution_context (Deserialized [Serialized_engine e0]),
                    Get_random_testcase, Copyto host img],
                files := (files w5)(''mnist.trt'' \<mapsto> [Serialized_engine e0])\<rparr>)"
  | (bad_outputs) host others img label buffer where
      "allocate_buffers ext (Deserialized [Serialized_engine e0]) = host # others"
      "random_testcase ext = (img, label)"
      "copyto (cast_to_buffer ext) host img = Inr buffer"
      "\<nexists>out. execute ext (Deserialized [Serialized_engine e0]) (buffer # others) = [out]"
      "main ext w =
           (Inl ValueError,
            w5\<lparr>calls := calls w5 @
                   [Open_file ''mnist.trt'' ''wb'', Serialize e0,
                    Write_file ''mnist.trt'' [Serialized_engine e0], Close_file ''mnist.trt'',
                    Open_file ''mnist.trt'' ''rb'', Runtime, Read_file ''mnist.trt'',
                    Deserialize_cuda_engine [Serialized_engine e0], Close_file ''mnist.trt'',
                    Allocate_buffers (Deserialized [Serialized_engine e0]),
                    Create_execution_context (Deserialized [Serialized_engine e0]),
                    Get_random_testcase, Copyto host img,
                    Do_inference_v2 (Deserialized [Serialized_engine e0]) (buffer # others)],
                files := (files w5)(''mnist.trt'' \<mapsto> [Serialized_engine e0])\<rparr>)"
  | (empty_output) host others img label buffer where
      "allocate_buffers ext (Deserialized [Serialized_engine e0]) = host # others"
      "random_testcase ext = (img, label)"
      "copyto (cast_to_buffer ext) host img = Inr buffer"
      "execute ext (Deserialized [Serialized_engine e0]) (buffer # others) = [[]]"
      "main ext w =
           (Inl ValueError,
            w5\<lparr>calls := calls w5 @
                   [Open_file ''mnist.trt'' ''wb'', Serialize e0,
                    Write_file ''mnist.trt'' [Serialized_engine e0], Close_file ''mnist.trt'',
                    Open_file ''mnist.trt'' ''rb'', Runtime, Read_file ''mnist.trt'',
                    Deserialize_cuda_engine [Serialized_engine e0], Close_file ''mnist.trt'',
                    Allocate_buffers (Deserialized [Serialized_engine e0]),
                    Create_execution_context (Deserialized [Serialized_engine e0]),
                    Get_random_testcase, Copyto host img,
                    Do_inference_v2 (Deserialized [Serialized_engine e0]) (buffer # others),
                    Argmax []],
                files := (files w5)(''mnist.trt'' \<mapsto> [Serialized_engine e0])\<rparr>)"
  | (normal) host others img label buffer out pred where
      "allocate_buffers ext (Deserialized [Serialized_engine e0]) = host # others"
      "random_testcase ext = (img, label)"
      "copyto (cast_to_buffer ext) host img = Inr buffer"
      "execute ext (Deserialized [Serialized_engine e0]) (buffer # others) = [out]"
      "argmax (isnan ext) out = Inr pred"
      "main ext w =
           (Inr (),
            w5\<lparr>calls := calls w5 @
                   [Open_file ''mnist.trt'' ''wb'', Serialize e0,
                    Write_file ''mnist.trt'' [Serialized_engine e0], Close_file ''mnist.trt'',
                    Open_file ''mnist.trt'' ''rb'', Runtime, Read_file ''mnist.trt'',
                    Deserialize_cuda_engine [Serialized_engine e0], Close_file ''mnist.trt'',
                    Allocate_buffers (Deserialized [Serialized_engine e0]),
                    Create_execution_context (Deserialized [Serialized_engine e0]),
                    Get_random_testcase, Copyto host img,
                    Do_inference_v2 (Deserialized [Serialized_engine e0]) (buffer # others),
                    Argmax out,
                    Print (''Test Case: '' @ str label), Print (''Prediction: '' @ str pred)],
                files := (files w5)(''mnist.trt'' \<mapsto> [Serialized_engine e0]),
                stdout := stdout w5 @ [''Test Case: '' @ str label, ''Prediction: '' @ str pred]\<rparr>)"
proof -
  obtain img label where t: "random_testcase ext = (img, label)"
    by (cases "random_testcase ext")
  note defs = log_def file_defs engine_call_defs load_random_test_case_def print_def Let_def
  show thesis
  proof (cases "allocate_buffers ext (Deserialized [Serialized_engine e0])")
    case Nil
    moreover from b Nil have "main ext w =
           (Inl IndexError,
            w5\<lparr>calls := calls w5 @
                   [Open_file ''mnist.trt'' ''wb'', Serialize e0,
                    Write_file ''mnist.trt'' [Serialized_engine e0], Close_file ''mnist.trt'',
                    Open_file ''mnist.trt'' ''rb'', Runtime, Read_file ''mnist.trt'',
                    Deserialize_cuda_engine [Serialized_engine e0], Close_file ''mnist.trt'',
                    Allocate_buffers (Deserialized [Serialized_engine e0]),
                    Create_execution_context (Deserialized [Serialized_engine e0])],
                files := (files w5)(''mnist.trt'' \<mapsto> [Serialized_engine e0])\<rparr>)"
      unfolding main_def by (simp add: defs)
    ultimately show thesis by (rule no_input)
  next
    case (Cons host others)
    note i = this
    show thesis
    proof (cases "copyto (cast_to_buffer ext) host img")
      case (Inl e)
      moreover from b i t Inl have "main ext w =
           (Inl e,
            w5\<lparr>calls := calls w5 @
                   [Open_file ''mnist.trt'' ''wb'', Serialize e0,
                    Write_file ''mnist.trt'' [Serialized_engine e0], Close_file ''mnist.trt'',
                    Open_file ''mnist.trt'' ''rb'', Runtime, Read_file ''mnist.trt'',
                    Deserialize_cuda_engine [Serialized_engine e0], Close_file ''mnist.trt'',
                    Allocate_buffers (Deserialized [Serialized_engine e0]),
                    Create_execution_context (Deserialized [Serialized_engine e0]),
                    Get_random_testcase, Copyto host img],
                files := (files w5)(''mnist.trt'' \<mapsto> [Serialized_engine e0])\<rparr>)"
        unfolding main_def by (simp add: defs)
      ultimately show thesis using i t by (rule copy_fails [rotated 2])
    next
      case (Inr buffer)
      note c = this
      show thesis
      proof (cases "execute ext (Deserialized [Serialized_engine e0]) (buffer # others)")
        case Nil
        then have n: "\<nexists>out. execute ext (Deserialized [Serialized_engine e0]) (buffer # others) = [out]"
          by simp
        from b i t c Nil have "main ext w =
           (Inl ValueError,
            w5\<lparr>calls := calls w5 @
                   [Open_file ''mnist.trt'' ''wb'', Serialize e0,
                    Write_file ''mnist.trt'' [Serialized_engine e0], Close_file ''mnist.trt'',
                    Open_file ''mnist.trt'' ''rb'', Runtime, Read_file ''mnist.trt'',
                    Deserialize_cuda_engine [Serialized_engine e0], Close_file ''mnist.trt'',
                    Allocate_buffers (Deserialized [Serialized_engine e0]),
                    Create_execution_context (Deserialized [Serialized_engine e0]),
                    Get_random_testcase, Copyto host img,
                    Do_inference_v2 (Deserialized [Serialized_engine e0]) (buffer # others)],
                files := (files w5)(''mnist.trt'' \<mapsto> [Serialized_engine e0])\<rparr>)"
          unfolding main_def by (simp add: defs)
        with i t c n show thesis by (rule bad_outputs)
      next
        case (Cons out rest)
        note x = this
        show thesis
        proof (cases rest)
          case (Cons out2 rest2)
          with x have n: "\<nexists>out. execute ext (Deserialized [Serialized_engine e0]) (buffer # others) = [out]"
            by simp
          from b i t c x Cons have "main ext w =
           (Inl ValueError,
            w5\<lparr>calls := calls w5 @
                   [Open_file ''mnist.trt'' ''wb'', Serialize e0,
                    Write_file ''mnist.trt'' [Serialized_engine e0], Close_file ''mnist.trt'',
                    Open_file ''mnist.trt'' ''rb'', Runtime, Read_file ''mnist.trt'',
                    Deserialize_cuda_engine [Serialized_engine e0], Close_file ''mnist.trt'',
                    Allocate_buffers (Deserialized [Serialized_engine e0]),
                    Create_execution_context (Deserialized [Serialized_engine e0]),
                    Get_random_testcase, Copyto host img,
                    Do_inference_v2 (Deserialized [Serialized_engine e0]) (buffer # others)],
                files := (files w5)(''mnist.trt'' \<mapsto> [Serialized_engine e0])\<rparr>)"
            unfolding main_def by (simp add: defs)
          with i t c n show thesis by (rule bad_outputs)
        next
          case Nil
          with x have x1: "execute ext (Deserialized [Serialized_engine e0]) (buffer # others) = [out]"
            by simp
          show thesis
          proof (cases "argmax (isnan ext) out")
            case (Inr pred)
            from main_after_build [OF b i t c x1 Inr] i t c x1 Inr
            show thesis by (rule normal [rotated 5])
          next
            case (Inl e)
            then have o: "out = []" and e: "e = ValueError"
              by (auto simp add: argmax_def split: list.splits)
            from x1 o have x2: "execute ext (Deserialized [Serialized_engine e0]) (buffer # others) = [[]]"
              by simp
            from b i t c x2 have "main ext w =
           (Inl ValueError,
            w5\<lparr>calls := calls w5 @
                   [Open_file ''mnist.trt'' ''wb'', Serialize e0,
                    Write_file ''mnist.trt'' [Serialized_engine e0], Close_file ''mnist.trt'',
                    Open_file ''mnist.trt'' ''rb'', Runtime, Read_file ''mnist.trt'',
                    Deserialize_cuda_engine [Serialized_engine e0], Close_file ''mnist.trt'',
                    Allocate_buffers (Deserialized [Serialized_engine e0]),
                    Create_execution_context (Deserialized [Serialized_engine e0]),
                    Get_random_testcase, Copyto host img,
                    Do_inference_v2 (Deserialized [Serialized_engine e0]) (buffer # others),
                    Argmax []],
                files := (files w5)(''mnist.trt'' \<mapsto> [Serialized_engine e0])\<rparr>)"
              unfolding main_def by (simp add: defs argmax_def)
            with i t c x2 show thesis by (rule empty_output)
          qed
        qed
      qed
    qed
  qed
qed

lemma reload_neq: "Deserialized [Serialized_engine e] \<noteq> e"
proof
  assume "Deserialized [Serialized_engine e] = e"
  then have "size (Deserialized [Serialized_engine e]) = size e" by simp
  then show False by simp
qed

subsection \<open>The concrete inputs and the observations\<close>

lemma sample_weights_keys:
  "sample_weights ''conv1.weight'' = Some (zeros [20, 1, 5, 5])"
  "sample_weights ''conv1.bias'' = Some (zeros [20])"
  "sample_weights ''conv2.weight'' = Some (zeros [50, 20, 5, 5])"
  "sample_weights ''conv2.bias'' = Some (zeros [50])"
  "sample_weights ''fc1.weight'' = Some (zeros [500, 800])"
  "sample_weights ''fc1.bias'' = Some (zeros [500])"
  "sample_weights ''fc2.weight'' = Some (zeros [10, 500])"
  "sample_weights ''fc2.bias'' = Some (zeros [10])"
  by (simp_all add: sample_weights_def)

lemma sample_externals_simps:
  "trt_version (sample_externals v) = v"
  "EXPLICIT_BATCH (sample_externals v) = 1"
  "default_config (sample_externals v) = \<lparr>max_workspace_size = 0, flags = 0\<rparr>"
  "trained_weights (sample_externals v) = sample_weights"
  "random_testcase (sample_externals v) = (blank_image, 7)"
  "allocate_buffers (sample_externals v) e = [blank_buffer]"
  "cast_to_buffer (sample_externals v) = Some (\<lambda>x. x)"
  "isnan (sample_externals v) = (\<lambda>x. False)"
  "execute (sample_externals v) e inputs = [[0, 1, 0, 9, 0, 0, 0, 2, 0, 0]]"
  by (simp_all add: sample_externals_def)

lemma sample_externals_keys:
  "trained_weights (sample_externals v) ''conv1.weight'' = Some (zeros [20, 1, 5, 5])"
  "trained_weights (sample_externals v) ''conv1.bias'' = Some (zeros [20])"
  "trained_weights (sample_externals v) ''conv2.weight'' = Some (zeros [50, 20, 5, 5])"
  "trained_weights (sample_externals v) ''conv2.bias'' = Some (zeros [50])"
  "trained_weights (sample_externals v) ''fc1.weight'' = Some (zeros [500, 800])"
  "trained_weights (sample_externals v) ''fc1.bias'' = Some (zeros [500])"
  "trained_weights (sample_externals v) ''fc2.weight'' = Some (zeros [10, 500])"
  "trained_weights (sample_externals v) ''fc2.bias'' = Some (zeros [10])"
  by (simp_all add: sample_externals_simps sample_weights_keys)

lemma sample_version_7: "trt_v7 (sample_externals ''7.2.3.4'')"
  by (simp add: trt_v7_def startswith_def sample_externals_simps)

lemma sample_version_8: "\<not> trt_v7 (sample_externals ''8.0.1.6'')"
  by (simp add: trt_v7_def startswith_def sample_externals_simps)

lemma mismatched_weights_keys:
  "mismatched_weights ''conv1.weight'' = Some (zeros [3])"
  "mismatched_weights ''conv1.bias'' = Some (zeros [20])"
  "mismatched_weights ''conv2.weight'' = Some (zeros [50, 20, 5, 5])"
  "mismatched_weights ''conv2.bias'' = Some (zeros [50])"
  "mismatched_weights ''fc1.weight'' = Some (zeros [500, 800])"
  "mismatched_weights ''fc1.bias'' = Some (zeros [500])"
  "mismatched_weights ''fc2.weight'' = Some (zeros [10, 500])"
  "mismatched_weights ''fc2.bias'' = Some (zeros [10])"
  by (simp_all add: mismatched_weights_def sample_weights_def)

lemma stages_append: "stages (xs @ ys) = stages xs @ stages ys"
  by (simp add: stages_def map_filter_def)

lemma stages_Cons: "stages (x # xs) = (case stage_of x of None \<Rightarrow> stages xs | Some s \<Rightarrow> s # stages xs)"
  by (simp add: stages_def split: option.splits)

lemma stages_Nil: "stages [] = []"
  by (simp add: stages_def split: option.splits)

lemma budgets_append: "budgets (xs @ ys) = budgets xs @ budgets ys"
  by (simp add: budgets_def map_filter_def)

lemma budgets_Cons:
  "budgets (x # xs) = (case compile_budget x of None \<Rightarrow> budgets xs | Some s \<Rightarrow> s # budgets xs)"
  by (simp add: budgets_def split: option.splits)

lemma budgets_Nil: "budgets [] = []"
  by (simp add: budgets_def split: option.splits)

lemma engines_used_append: "engines_used (xs @ ys) = engines_used xs @ engines_used ys"
  by (simp add: engines_used_def map_filter_def)

lemma engines_used_Cons:
  "engines_used (x # xs) =
     (case engine_used x of None \<Rightarrow> engines_used xs | Some s \<Rightarrow> s # engines_used xs)"
  by (simp add: engines_used_def split: option.splits)

lemma engines_used_Nil: "engines_used [] = []"
  by (simp add: engines_used_def split: option.splits)

lemma files_opened_append: "files_opened (xs @ ys) = files_opened xs @ files_opened ys"
  by (simp add: files_opened_def map_filter_def)

lemma files_opened_Cons:
  "files_opened (x # xs) =
     (case opened x of None \<Rightarrow> files_opened xs | Some s \<Rightarrow> s # files_opened xs)"
  by (simp add: files_opened_def split: option.splits)

lemma files_opened_Nil: "files_opened [] = []"
  by (simp add: files_opened_def split: option.splits)

lemmas observer_simps = stages_append stages_Cons stages_Nil budgets_append budgets_Cons
  budgets_Nil engines_used_append engines_used_Cons engines_used_Nil files_opened_append
  files_opened_Cons files_opened_Nil


subsection \<open>The outcomes of \<^verbatim>\<open>build_engine\<close> and of \<^verbatim>\<open>main\<close>\<close>

lemma build_engine_cases:
  obtains (fail) e where "populate_network create_network weights = Inl e"
    "\<And>w. build_engine ext weights w =
           (Inl e,
            w\<lparr>calls := calls w @ [Builder, Create_network (EXPLICIT_BATCH ext),
                                   Create_builder_config, Runtime, Populate_network]\<rparr>)"
  | (v7) net where "populate_network create_network weights = Inr net" "trt_v7 ext"
    "\<And>w. build_engine ext weights w =
           (Inr (Built net ((default_config ext)\<lparr>max_workspace_size := GiB 1\<rparr>)),
            w\<lparr>calls := calls w @ [Builder, Create_network (EXPLICIT_BATCH ext),
                 Create_builder_config, Runtime, Populate_network,
                 Build_engine net ((default_config ext)\<lparr>max_workspace_size := GiB 1\<rparr>)]\<rparr>)"
  | (v8) net where "populate_network create_network weights = Inr net" "\<not> trt_v7 ext"
    "\<And>w. build_engine ext weights w =
           (Inr (Deserialized
                  [Serialized_network net ((default_config ext)\<lparr>max_workspace_size := GiB 1\<rparr>)]),
            w\<lparr>calls := calls w @ [Builder, Create_network (EXPLICIT_BATCH ext),
                 Create_builder_config, Runtime, Populate_network,
                 Build_serialized_network net ((default_config ext)\<lparr>max_workspace_size := GiB 1\<rparr>),
                 Deserialize_cuda_engine
                   [Serialized_network net ((default_config ext)\<lparr>max_workspace_size := GiB 1\<rparr>)]]\<rparr>)"
proof (cases "populate_network create_network weights")
  case (Inl e)
  then show ?thesis using fail build_engine_fail by blast
next
  case (Inr net)
  then show ?thesis
    using v7 v8 build_engine_v7 build_engine_v8 by (cases "trt_v7 ext") blast+
qed

lemma build_engine_budgets:
  "budgets (calls (snd (build_engine ext weights w))) =
     budgets (calls w) @ (if isl (fst (build_engine ext weights w)) then [] else [2 ^ 30])"
  by (cases rule: build_engine_cases [of weights ext])
    (simp_all add: observer_simps GiB_def)


lemma main_budgets_after_build:
  assumes b: "build_engine ext (trained_weights ext)
             (w\<lparr>calls := calls w @ [Add_help ''Runs an MNIST network using a PyTorch model'',
                                    MnistModel, Learn, Get_weights]\<rparr>) = (Inr e0, w5)"
  shows "budgets (calls (snd (main ext w))) = budgets (calls w5)"
  by (cases rule: main_after_build_cases [OF b]) (simp_all add: observer_simps)

lemma main_budgets:
  "budgets (calls (snd (main ext w))) =
     budgets (calls w) @
     (if isl (fst (build_engine ext (trained_weights ext) w)) then [] else [2 ^ 30])"
proof (cases rule: build_engine_cases [of "trained_weights ext" ext])
  case (fail e)
  then show ?thesis by (simp add: main_def log_def observer_simps)
next
  case (v7 net)
  show ?thesis
    using main_budgets_after_build [OF v7(3), of w] v7(3) [of w]
    by (simp add: observer_simps GiB_def)
next
  case (v8 net)
  show ?thesis
    using main_budgets_after_build [OF v8(3), of w] v8(3) [of w]
    by (simp add: observer_simps GiB_def)
qed


lemma main_stages_after_build:
  assumes b: "build_engine ext (trained_weights ext)
             (w\<lparr>calls := calls w @ [Add_help ''Runs an MNIST network using a PyTorch model'',
                                    MnistModel, Learn, Get_weights]\<rparr>) = (Inr e0, w5)"
    and s: "stages (calls w5) = [Train, Extract_weights, Build_graph, Compile_engine]"
    and o: "stdout w5 = []"
  shows "prefix (stages (calls (snd (main ext w))))
           [Train, Extract_weights, Build_graph, Compile_engine, Serialize_to_disk,
            Deserialize_from_disk, Allocate_stage, Draw_test_case, Run_inference,
            Take_argmax, Print_line, Print_line] \<and>
         (fst (main ext w) = Inr () \<longrightarrow>
            stages (calls (snd (main ext w))) =
              [Train, Extract_weights, Build_graph, Compile_engine, Serialize_to_disk,
            Deserialize_from_disk, Allocate_stage, Draw_test_case, Run_inference,
            Take_argmax, Print_line, Print_line] \<and>
            (\<exists>e inputs out pred.
               Do_inference_v2 e inputs \<in> set (calls (snd (main ext w))) \<and>
               execute ext e inputs = [out] \<and> argmax (isnan ext) out = Inr pred \<and>
               stdout (snd (main ext w)) =
                 [''Test Case: '' @ str (snd (random_testcase ext)),
                  ''Prediction: '' @ str pred]))"
  using b
proof (cases rule: main_after_build_cases)
  case no_input
  then show ?thesis by (simp add: observer_simps s)
next
  case (copy_fails host others img label e)
  then show ?thesis by (simp add: observer_simps s)
next
  case (bad_outputs host others img label buffer)
  then show ?thesis by (simp add: observer_simps s)
next
  case (empty_output host others img label buffer)
  then show ?thesis by (simp add: observer_simps s)
next
  case (normal host others img label buffer out pred)
  have 1: "stages (calls (snd (main ext w))) =
              [Train, Extract_weights, Build_graph, Compile_engine, Serialize_to_disk,
            Deserialize_from_disk, Allocate_stage, Draw_test_case, Run_inference,
            Take_argmax, Print_line, Print_line]"
    by (simp add: normal(6) observer_simps s)
  have 2: "Do_inference_v2 (Deserialized [Serialized_engine e0]) (buffer # others)
             \<in> set (calls (snd (main ext w)))"
    by (simp add: normal(6))
  have 3: "stdout (snd (main ext w)) =
                 [''Test Case: '' @ str (snd (random_testcase ext)),
                  ''Prediction: '' @ str pred]"
    by (simp add: normal(6) normal(2) o)
  from 2 normal(4) normal(5) 3
  have "\<exists>e inputs out pred.
               Do_inference_v2 e inputs \<in> set (calls (snd (main ext w))) \<and>
               execute ext e inputs = [out] \<and> argmax (isnan ext) out = Inr pred \<and>
               stdout (snd (main ext w)) =
                 [''Test Case: '' @ str (snd (random_testcase ext)),
                  ''Prediction: '' @ str pred]"
    by blast
  with 1 show ?thesis by simp
qed

lemma main_uses_after_build:
  assumes b: "build_engine ext (trained_weights ext)
             (w\<lparr>calls := calls w @ [Add_help ''Runs an MNIST network using a PyTorch model'',
                                    MnistModel, Learn, Get_weights]\<rparr>) = (Inr e0, w5)"
    and f: "files_opened (calls w5) = []"
    and u: "engines_used (calls w5) = []"
  shows "files_opened (calls (snd (main ext w))) =
           [(''mnist.trt'', ''wb''), (''mnist.trt'', ''rb'')] \<and>
         files (snd (main ext w)) ''mnist.trt'' = Some [Serialized_engine e0] \<and>
         (engines_used (calls (snd (main ext w))) =
            [Deserialized [Serialized_engine e0], Deserialized [Serialized_engine e0]] \<or>
          engines_used (calls (snd (main ext w))) =
            [Deserialized [Serialized_engine e0], Deserialized [Serialized_engine e0],
             Deserialized [Serialized_engine e0]]) \<and>
         (fst (main ext w) = Inr () \<longrightarrow>
            engines_used (calls (snd (main ext w))) =
              [Deserialized [Serialized_engine e0], Deserialized [Serialized_engine e0],
               Deserialized [Serialized_engine e0]])"
  by (cases rule: main_after_build_cases [OF b]) (simp_all add: observer_simps f u)

lemma sample_populate:
  "populate_network create_network (trained_weights (sample_externals v)) =
      Inr (mnist_graph (zeros [20, 1, 5, 5]) (zeros [20]) (zeros [50, 20, 5, 5]) (zeros [50])
               (zeros [500, 800]) (zeros [500]) (zeros [10, 500]) (zeros [10]))"
  by (rule populate_network_fresh [OF sample_externals_keys])

lemma sample_copyto:
  "copyto (cast_to_buffer (sample_externals v)) blank_buffer blank_image = Inr blank_buffer"
  by (simp add: sample_externals_simps copyto_def blank_buffer_def blank_image_def zeros_def)

lemma sample_argmax:
  "argmax (isnan (sample_externals v)) [0, 1, 0, 9, 0, 0, 0, 2, 0, 0] = Inr 3"
  by (simp add: sample_externals_simps argmax_def)

lemma sample_main_normal: "fst (main (sample_externals v) (initial_world fs)) = Inr ()"
proof (cases "trt_v7 (sample_externals v)")
  case True
  show ?thesis
    by (simp add: main_after_build [OF build_engine_v7 [OF sample_populate True]
          sample_externals_simps(6) sample_externals_simps(5) sample_copyto
          sample_externals_simps(9) sample_argmax])
next
  case False
  show ?thesis
    by (simp add: main_after_build [OF build_engine_v8 [OF sample_populate False]
          sample_externals_simps(6) sample_externals_simps(5) sample_copyto
          sample_externals_simps(9) sample_argmax])
qed

lemma sample_run:
  "main (sample_externals ''8.0.1.6'') (initial_world Map.empty) =
     (Inr (),
      \<lparr>calls =
         [Add_help ''Runs an MNIST network using a PyTorch model'',
          MnistModel, Learn, Get_weights,
          Builder, Create_network 1, Create_builder_config, Runtime, Populate_network,
          Build_serialized_network
            (mnist_graph (zeros [20, 1, 5, 5]) (zeros [20]) (zeros [50, 20, 5, 5]) (zeros [50])
               (zeros [500, 800]) (zeros [500]) (zeros [10, 500]) (zeros [10]))
            \<lparr>max_workspace_size = 1073741824, flags = 0\<rparr>,
          Deserialize_cuda_engine
            [Serialized_network
              (mnist_graph (zeros [20, 1, 5, 5]) (zeros [20]) (zeros [50, 20, 5, 5]) (zeros [50])
               (zeros [500, 800]) (zeros [500]) (zeros [10, 500]) (zeros [10]))
              \<lparr>max_workspace_size = 1073741824, flags = 0\<rparr>],
          Open_file ''mnist.trt'' ''wb'',
          Serialize (Deserialized
            [Serialized_network
              (mnist_graph (zeros [20, 1, 5, 5]) (zeros [20]) (zeros [50, 20, 5, 5]) (zeros [50])
               (zeros [500, 800]) (zeros [500]) (zeros [10, 500]) (zeros [10]))
              \<lparr>max_workspace_size = 1073741824, flags = 0\<rparr>]),
          Write_file ''mnist.trt'' [Serialized_engine (Deserialized
            [Serialized_network
              (mnist_graph (zeros [20, 1, 5, 5]) (zeros [20]) (zeros [50, 20, 5, 5]) (zeros [50])
               (zeros [500, 800]) (zeros [500]) (zeros [10, 500]) (zeros [10]))
              \<lparr>max_workspace_size = 1073741824, flags = 0\<rparr>])],
          Close_file ''mnist.trt'',
          Open_file ''mnist.trt'' ''rb'', Runtime, Read_file ''mnist.trt'',
          Deserialize_cuda_engine [Serialized_engine (Deserialized
            [Serialized_network
              (mnist_graph (zeros [20, 1, 5, 5]) (zeros [20]) (zeros [50, 20, 5, 5]) (zeros [50])
               (zeros [500, 800]) (zeros [500]) (zeros [10, 500]) (zeros [10]))
              \<lparr>max_workspace_size = 1073741824, flags = 0\<rparr>])],
          Close_file ''mnist.trt'',
          Allocate_buffers (Deserialized [Serialized_engine (Deserialized
            [Serialized_network
              (mnist_graph (zeros [20, 1, 5, 5]) (zeros [20]) (zeros [50, 20, 5, 5]) (zeros [50])
               (zeros [500, 800]) (zeros [500]) (zeros [10, 500]) (zeros [10]))
              \<lparr>max_workspace_size = 1073741824, flags = 0\<rparr>])]),
          Create_execution_context (Deserialized [Serialized_engine (Deserialized
            [Serialized_network
              (mnist_graph (zeros [20, 1, 5, 5]) (zeros [20]) (zeros [50, 20, 5, 5]) (zeros [50])
               (zeros [500, 800]) (zeros [500]) (zeros [10, 500]) (zeros [10]))
              \<lparr>max_workspace_size = 1073741824, flags = 0\<rparr>])]),
          Get_random_testcase, Copyto blank_buffer blank_image,
          Do_inference_v2 (Deserialized [Serialized_engine (Deserialized
            [Serialized_network
              (mnist_graph (zeros [20, 1, 5, 5]) (zeros [20]) (zeros [50, 20, 5, 5]) (zeros [50])
               (zeros [500, 800]) (zeros [500]) (zeros [10, 500]) (zeros [10]))
              \<lparr>max_workspace_size = 1073741824, flags = 0\<rparr>])]) [blank_buffer],
          Argmax [0, 1, 0, 9, 0, 0, 0, 2, 0, 0],
          Print ''Test Case: 7'', Print ''Prediction: 3''],
       files = [''mnist.trt'' \<mapsto> [Serialized_engine (Deserialized
            [Serialized_network
              (mnist_graph (zeros [20, 1, 5, 5]) (zeros [20]) (zeros [50, 20, 5, 5]) (zeros [50])
               (zeros [500, 800]) (zeros [500]) (zeros [10, 500]) (zeros [10]))
              \<lparr>max_workspace_size = 1073741824, flags = 0\<rparr>])]],
       stdout = [''Test Case: 7'', ''Prediction: 3'']\<rparr>)"
proof -
  have s: "str 7 = ''7''" "str 3 = ''3''"
    by (simp_all add: str.simps digit_def)
  show ?thesis
    using main_after_build [OF build_engine_v8 [OF sample_populate sample_version_8]
          sample_externals_simps(6) sample_externals_simps(5) sample_copyto
          sample_externals_simps(9) sample_argmax, of "initial_world Map.empty"]
    by (simp add: sample_externals_simps initial_world_def GiB_def s)
qed

section \<open>The graph that \<^verbatim>\<open>populate_network\<close> builds\<close>

text \<open>
  Claim C2: for every weight set that contains the eight named tensors,
  \<^verbatim>\<open>populate_network\<close> on a fresh network yields exactly this description: one
  input, a convolution with 20 filters, kernel 5x5 and stride 1, a 2x2 max-pool with
  stride 2, a convolution with 50 filters, kernel 5x5 and stride 1, a 2x2 max-pool with
  stride 2, a fully-connected layer with 500 outputs, a rectified-linear activation, a
  fully-connected layer with 10 outputs, and one marked output, each layer fed by the
  one before it, and nothing else. The result is a function of the weights alone.
\<close>

theorem populate_network_topology:
  assumes "weights ''conv1.weight'' = Some c1w" "weights ''conv1.bias'' = Some c1b"
    "weights ''conv2.weight'' = Some c2w" "weights ''conv2.bias'' = Some c2b"
    "weights ''fc1.weight'' = Some f1w" "weights ''fc1.bias'' = Some f1b"
    "weights ''fc2.weight'' = Some f2w" "weights ''fc2.bias'' = Some f2b"
  shows "populate_network create_network weights =
     Inr \<lparr>net_inputs = [(''data'', float32, [1, 1, 28, 28])],
      net_layers =
        [Convolution (Network_input 0) 20 (5, 5) c1w c1b (1, 1),
         Pooling (Layer_output 0 0) PoolingType_MAX (2, 2) (2, 2),
         Convolution (Layer_output 1 0) 50 (5, 5) c2w c2b (1, 1),
         Pooling (Layer_output 2 0) PoolingType_MAX (2, 2) (2, 2),
         Fully_connected (Layer_output 3 0) 500 f1w f1b,
         Activation (Layer_output 4 0) ActivationType_RELU,
         Fully_connected (Layer_output 5 0) 10 f2w f2b],
      net_names = [(Layer_output 6 0, ''prob'')],
      net_outputs = [Layer_output 6 0]\<rparr>"
  using populate_network_fresh [OF assms] by (simp add: mnist_graph_def)

text \<open>The theorem at a concrete input.\<close>

theorem populate_network_topology_witness:
  "populate_network create_network sample_weights =
     Inr \<lparr>net_inputs = [(''data'', float32, [1, 1, 28, 28])],
      net_layers =
        [Convolution (Network_input 0) 20 (5, 5) (zeros [20, 1, 5, 5]) (zeros [20]) (1, 1),
         Pooling (Layer_output 0 0) PoolingType_MAX (2, 2) (2, 2),
         Convolution (Layer_output 1 0) 50 (5, 5) (zeros [50, 20, 5, 5]) (zeros [50]) (1, 1),
         Pooling (Layer_output 2 0) PoolingType_MAX (2, 2) (2, 2),
         Fully_connected (Layer_output 3 0) 500 (zeros [500, 800]) (zeros [500]),
         Activation (Layer_output 4 0) ActivationType_RELU,
         Fully_connected (Layer_output 5 0) 10 (zeros [10, 500]) (zeros [10])],
      net_names = [(Layer_output 6 0, ''prob'')],
      net_outputs = [Layer_output 6 0]\<rparr>"
  by (rule populate_network_topology [OF sample_weights_keys])

text \<open>
  Claim C8: every description that \<^verbatim>\<open>populate_network\<close> builds in a fresh network
  has exactly one input, named \<open>data\<close>, and exactly one marked output, the output of the
  last layer, named \<open>prob\<close>; no other tensor is an input, is marked as output or is given
  a name.
\<close>

theorem populate_network_bindings:
  assumes "populate_network create_network weights = Inr net"
  shows "net_inputs net = [(''data'', float32, [1, 1, 28, 28])] \<and>
         net_outputs net = [Layer_output 6 0] \<and>
         tensor_name net (Layer_output 6 0) = Some ''prob'' \<and>
         net_names net = [(Layer_output 6 0, ''prob'')]"
proof -
  from populate_network_Inr_keys [OF assms] obtain c1w c1b c2w c2b f1w f1b f2w f2b where
    "weights ''conv1.weight'' = Some c1w" "weights ''conv1.bias'' = Some c1b"
    "weights ''conv2.weight'' = Some c2w" "weights ''conv2.bias'' = Some c2b"
    "weights ''fc1.weight'' = Some f1w" "weights ''fc1.bias'' = Some f1b"
    "weights ''fc2.weight'' = Some f2w" "weights ''fc2.bias'' = Some f2b"
    by blast
  from populate_network_fresh [OF this] assms
  have "net = mnist_graph c1w c1b c2w c2b f1w f1b f2w f2b" by simp
  then show ?thesis by (simp add: mnist_graph_def tensor_name_def)
qed

text \<open>The theorem at a concrete input.\<close>

theorem populate_network_bindings_witness:
  "populate_network create_network sample_weights =
      Inr (mnist_graph (zeros [20, 1, 5, 5]) (zeros [20]) (zeros [50, 20, 5, 5]) (zeros [50])
             (zeros [500, 800]) (zeros [500]) (zeros [10, 500]) (zeros [10])) \<and>
   net_inputs (mnist_graph (zeros [20, 1, 5, 5]) (zeros [20]) (zeros [50, 20, 5, 5]) (zeros [50])
             (zeros [500, 800]) (zeros [500]) (zeros [10, 500]) (zeros [10])) =
     [(''data'', float32, [1, 1, 28, 28])] \<and>
   net_outputs (mnist_graph (zeros [20, 1, 5, 5]) (zeros [20]) (zeros [50, 20, 5, 5]) (zeros [50])
             (zeros [500, 800]) (zeros [500]) (zeros [10, 500]) (zeros [10])) =
     [Layer_output 6 0] \<and>
   tensor_name (mnist_graph (zeros [20, 1, 5, 5]) (zeros [20]) (zeros [50, 20, 5, 5]) (zeros [50])
             (zeros [500, 800]) (zeros [500]) (zeros [10, 500]) (zeros [10])) (Layer_output 6 0) =
     Some ''prob''"
proof -
  have p: "populate_network create_network sample_weights =
      Inr (mnist_graph (zeros [20, 1, 5, 5]) (zeros [20]) (zeros [50, 20, 5, 5]) (zeros [50])
             (zeros [500, 800]) (zeros [500]) (zeros [10, 500]) (zeros [10]))"
    by (rule populate_network_fresh [OF sample_weights_keys])
  show ?thesis using p populate_network_bindings [OF p] by simp
qed

text \<open>
  Claim C5: the shapes at the boundary are fixed. Every description that
  \<^verbatim>\<open>populate_network\<close> builds in a fresh network has the single input \<open>data\<close>
  with the shape 1x1x28x28 and the element type \<^verbatim>\<open>float32\<close> of \<^verbatim>\<open>ModelData\<close>,
  and a single output, the output of the last layer, the fully-connected layer with
  \<^verbatim>\<open>OUTPUT_SIZE\<close> = 10 outputs. The element type and the shape that the library
  derives for this output are \<^verbatim>\<open>float32\<close> and 1x10x1x1, that is 10 entries, whatever
  the weights.
\<close>

theorem boundary_shapes:
  assumes "populate_network create_network weights = Inr net"
  shows "INPUT_SHAPE = [1, 1, 28, 28] \<and> DTYPE = float32 \<and> OUTPUT_SIZE = 10 \<and>
         net_inputs net = [(INPUT_NAME, DTYPE, INPUT_SHAPE)] \<and>
         net_outputs net = [Layer_output 6 0] \<and>
         length (net_layers net) = 7 \<and>
         (\<exists>inp kern bias. net_layers net ! 6 = Fully_connected inp OUTPUT_SIZE kern bias) \<and>
         tensor_info net (Network_input 0) = Some (float32, [1, 1, 28, 28]) \<and>
         map (tensor_info net) (net_outputs net) = [Some (float32, [1, 10, 1, 1])] \<and>
         map (\<lambda>t. map_option (\<lambda>info. prod_list (snd info)) (tensor_info net t))
           (net_outputs net) = [Some 10]"
proof -
  from populate_network_Inr_keys [OF assms] obtain c1w c1b c2w c2b f1w f1b f2w f2b where
    "weights ''conv1.weight'' = Some c1w" "weights ''conv1.bias'' = Some c1b"
    "weights ''conv2.weight'' = Some c2w" "weights ''conv2.bias'' = Some c2b"
    "weights ''fc1.weight'' = Some f1w" "weights ''fc1.bias'' = Some f1b"
    "weights ''fc2.weight'' = Some f2w" "weights ''fc2.bias'' = Some f2b"
    by blast
  from populate_network_fresh [OF this] assms
  have n: "net = mnist_graph c1w c1b c2w c2b f1w f1b f2w f2b" by simp
  have 1: "INPUT_SHAPE = [1, 1, 28, 28] \<and> DTYPE = float32 \<and> OUTPUT_SIZE = 10 \<and>
         net_inputs net = [(INPUT_NAME, DTYPE, INPUT_SHAPE)] \<and>
         net_outputs net = [Layer_output 6 0] \<and>
         length (net_layers net) = 7 \<and>
         (\<exists>inp kern bias. net_layers net ! 6 = Fully_connected inp OUTPUT_SIZE kern bias)"
    by (simp add: n mnist_graph_def INPUT_SHAPE_def DTYPE_def OUTPUT_SIZE_def INPUT_NAME_def)
  have 2: "tensor_info net (Network_input 0) = Some (float32, [1, 1, 28, 28])"
    by (simp add: n tensor_info_def mnist_graph_def lookup_tensor_def)
  have 3: "tensor_info net (Layer_output 6 0) = Some (float32, [1, 10, 1, 1])"
    by (simp add: n tensor_info_def mnist_graph_def lookup_tensor_def window_extent_def)
  have 4: "net_outputs net = [Layer_output 6 0]"
    by (simp add: n mnist_graph_def)
  from 1 2 3 4 show ?thesis by simp
qed

text \<open>The theorem at a concrete input.\<close>

theorem boundary_shapes_witness:
  "populate_network create_network sample_weights =
      Inr (mnist_graph (zeros [20, 1, 5, 5]) (zeros [20]) (zeros [50, 20, 5, 5]) (zeros [50])
             (zeros [500, 800]) (zeros [500]) (zeros [10, 500]) (zeros [10])) \<and>
   net_inputs (mnist_graph (zeros [20, 1, 5, 5]) (zeros [20]) (zeros [50, 20, 5, 5]) (zeros [50])
             (zeros [500, 800]) (zeros [500]) (zeros [10, 500]) (zeros [10])) =
     [(''data'', float32, [1, 1, 28, 28])] \<and>
   net_layers (mnist_graph (zeros [20, 1, 5, 5]) (zeros [20]) (zeros [50, 20, 5, 5]) (zeros [50])
             (zeros [500, 800]) (zeros [500]) (zeros [10, 500]) (zeros [10])) ! 6 =
     Fully_connected (Layer_output 5 0) 10 (zeros [10, 500]) (zeros [10]) \<and>
   tensor_info (mnist_graph (zeros [20, 1, 5, 5]) (zeros [20]) (zeros [50, 20, 5, 5]) (zeros [50])
             (zeros [500, 800]) (zeros [500]) (zeros [10, 500]) (zeros [10]))
     (Layer_output 6 0) = Some (float32, [1, 10, 1, 1])"
proof -
  have p: "populate_network create_network sample_weights =
      Inr (mnist_graph (zeros [20, 1, 5, 5]) (zeros [20]) (zeros [50, 20, 5, 5]) (zeros [50])
             (zeros [500, 800]) (zeros [500]) (zeros [10, 500]) (zeros [10]))"
    by (rule populate_network_fresh [OF sample_weights_keys])
  from boundary_shapes [OF p]
  have "map (tensor_info (mnist_graph (zeros [20, 1, 5, 5]) (zeros [20]) (zeros [50, 20, 5, 5]) (zeros [50])
             (zeros [500, 800]) (zeros [500]) (zeros [10, 500]) (zeros [10])))
          (net_outputs (mnist_graph (zeros [20, 1, 5, 5]) (zeros [20]) (zeros [50, 20, 5, 5]) (zeros [50])
             (zeros [500, 800]) (zeros [500]) (zeros [10, 500]) (zeros [10]))) =
        [Some (float32, [1, 10, 1, 1])]"
    by blast
  then have "tensor_info (mnist_graph (zeros [20, 1, 5, 5]) (zeros [20]) (zeros [50, 20, 5, 5]) (zeros [50])
             (zeros [500, 800]) (zeros [500]) (zeros [10, 500]) (zeros [10]))
     (Layer_output 6 0) = Some (float32, [1, 10, 1, 1])"
    by (simp add: mnist_graph_def)
  with p show ?thesis
    by (simp add: mnist_graph_def)
qed

section \<open>Missing and mismatched weights\<close>

text \<open>
  Claim C4, as stated: \<^verbatim>\<open>populate_network\<close> fails when a named tensor is absent or
  has a shape that does not match the topology. The function never looks at a shape: on
  a weight set that has all eight tensors, the first convolution kernel having shape
  \<open>[3]\<close> instead of \<open>[20, 1, 5, 5]\<close>, it does not fail and emits the description
  with that kernel in it.
\<close>

theorem populate_network_shape_counterexample:
  "\<not> shapes_as_specified mismatched_weights \<and>
   populate_network create_network mismatched_weights =
     Inr (mnist_graph (zeros [3]) (zeros [20]) (zeros [50, 20, 5, 5]) (zeros [50])
            (zeros [500, 800]) (zeros [500]) (zeros [10, 500]) (zeros [10])) \<and>
   \<not> isl (populate_network create_network mismatched_weights)"
proof -
  have "\<not> shapes_as_specified mismatched_weights"
    by (simp add: shapes_as_specified_def spec_weight_shapes_def mismatched_weights_keys
        zeros_def)
  moreover have "populate_network create_network mismatched_weights =
     Inr (mnist_graph (zeros [3]) (zeros [20]) (zeros [50, 20, 5, 5]) (zeros [50])
            (zeros [500, 800]) (zeros [500]) (zeros [10, 500]) (zeros [10]))"
    by (rule populate_network_fresh [OF mismatched_weights_keys])
  ultimately show ?thesis by simp
qed

text \<open>
  Claim C4, amended: if any of the eight named tensors is absent from the weight set,
  \<^verbatim>\<open>populate_network\<close> raises \<^verbatim>\<open>KeyError\<close> for the first absent name (in the
  order of its lookups) instead of emitting a description, whatever network it is given,
  and \<^verbatim>\<open>build_engine\<close> ends with that error right after its call of
  \<^verbatim>\<open>populate_network\<close>: no compile call is made.
\<close>

theorem populate_network_missing_key:
  assumes "k \<in> set weight_keys" and "weights k = None"
  shows "\<exists>k'. first_missing weights = Some k' \<and>
           populate_network network weights = Inl (KeyError k') \<and>
           build_engine ext weights w =
             (Inl (KeyError k'),
              w\<lparr>calls := calls w @ [Builder, Create_network (EXPLICIT_BATCH ext),
                                     Create_builder_config, Runtime, Populate_network]\<rparr>) \<and>
           stages (calls (snd (build_engine ext weights w))) =
             stages (calls w) @ [Build_graph]"
proof -
  from first_missing_Some [of k weights, OF assms] obtain k' where f: "first_missing weights = Some k'" ..
  have p: "populate_network network weights = Inl (KeyError k')" for network
    by (rule populate_network_missing [OF f])
  have b: "build_engine ext weights w =
             (Inl (KeyError k'),
              w\<lparr>calls := calls w @ [Builder, Create_network (EXPLICIT_BATCH ext),
                                     Create_builder_config, Runtime, Populate_network]\<rparr>)"
    by (rule build_engine_fail [OF p])
  have "stages (calls (snd (build_engine ext weights w))) = stages (calls w) @ [Build_graph]"
    by (simp add: b observer_simps)
  with f p b show ?thesis by blast
qed

text \<open>The theorem at a concrete input.\<close>

theorem populate_network_missing_key_witness:
  "''conv2.bias'' \<in> set weight_keys \<and> incomplete_weights ''conv2.bias'' = None \<and>
   populate_network create_network incomplete_weights = Inl (KeyError ''conv2.bias'') \<and>
   build_engine (sample_externals ''8.0.1.6'') incomplete_weights (initial_world Map.empty) =
     (Inl (KeyError ''conv2.bias''),
      \<lparr>calls = [Builder, Create_network 1, Create_builder_config, Runtime, Populate_network],
       files = Map.empty, stdout = []\<rparr>)"
proof -
  have k: "''conv2.bias'' \<in> set weight_keys" by (simp add: weight_keys_def)
  have n: "incomplete_weights ''conv2.bias'' = None" by (simp add: incomplete_weights_def)
  have f: "first_missing incomplete_weights = Some ''conv2.bias''"
    by (simp add: first_missing_def weight_keys_def incomplete_weights_def sample_weights_def)
  show ?thesis
    using populate_network_missing_key [of "''conv2.bias''" incomplete_weights create_network
        "sample_externals ''8.0.1.6''" "initial_world Map.empty", OF k n] k n f
    by (auto simp add: sample_externals_simps initial_world_def)
qed

section \<open>The workspace budget and the two version branches\<close>

text \<open>
  Claim C6: the workspace budget given to the engine compiler is exactly \<open>2 ^ 30\<close>
  bytes. The budgets of the compile calls of \<^verbatim>\<open>build_engine\<close>, and of a whole run
  of \<^verbatim>\<open>main\<close>, are the one budget \<open>2 ^ 30\<close> when the graph could be built and none
  otherwise, whatever the library version, the library's default configuration and the
  outcome of the later steps.
\<close>

theorem build_engine_workspace:
  "budgets (calls (snd (build_engine ext weights w))) =
     budgets (calls w) @ (if isl (fst (build_engine ext weights w)) then [] else [2 ^ 30]) \<and>
   budgets (calls (snd (main ext w))) =
     budgets (calls w) @
     (if isl (fst (build_engine ext (trained_weights ext) w)) then [] else [2 ^ 30])"
  using build_engine_budgets main_budgets by blast

text \<open>The theorem at a concrete input.\<close>

theorem build_engine_workspace_witness:
  "budgets (calls (snd (build_engine (sample_externals ''7.2.3.4'') sample_weights
      (initial_world Map.empty)))) = [1073741824] \<and>
   budgets (calls (snd (main (sample_externals ''8.0.1.6'') (initial_world Map.empty)))) =
     [1073741824]"
proof -
  have p: "populate_network create_network sample_weights =
      Inr (mnist_graph (zeros [20, 1, 5, 5]) (zeros [20]) (zeros [50, 20, 5, 5]) (zeros [50])
             (zeros [500, 800]) (zeros [500]) (zeros [10, 500]) (zeros [10]))"
    by (rule populate_network_fresh [OF sample_weights_keys])
  have "\<not> isl (fst (build_engine (sample_externals ''7.2.3.4'') sample_weights
      (initial_world Map.empty)))"
    by (simp add: build_engine_v7 [OF p sample_version_7])
  moreover have "\<not> isl (fst (build_engine (sample_externals ''8.0.1.6'')
      (trained_weights (sample_externals ''8.0.1.6'')) (initial_world Map.empty)))"
    using p by (simp add: sample_externals_simps build_engine_v8 [OF _ sample_version_8])
  ultimately show ?thesis
    using build_engine_workspace [of "sample_externals ''7.2.3.4''" sample_weights
        "initial_world Map.empty"]
      build_engine_workspace [of "sample_externals ''8.0.1.6''" sample_weights
        "initial_world Map.empty"]
    by (simp add: initial_world_def observer_simps)
qed

text \<open>
  Claim C9: \<^verbatim>\<open>build_engine\<close> returns an engine under both version branches, from
  the same network and the same configuration. For a weight set with the eight named
  tensors, a library whose version string starts with \<open>7\<close> gives the engine that the
  builder builds from the network and the configuration, and any other version gives the
  engine that the runtime deserializes from the serialized network built from the same
  network and configuration; the configuration is the library's default with the
  workspace budget set to \<open>GiB 1\<close>.
\<close>

theorem build_engine_branches:
  assumes "weights ''conv1.weight'' = Some c1w" "weights ''conv1.bias'' = Some c1b"
    "weights ''conv2.weight'' = Some c2w" "weights ''conv2.bias'' = Some c2b"
    "weights ''fc1.weight'' = Some f1w" "weights ''fc1.bias'' = Some f1b"
    "weights ''fc2.weight'' = Some f2w" "weights ''fc2.bias'' = Some f2b"
    and v7: "startswith (trt_version ext7) ''7''"
    and v8: "\<not> startswith (trt_version ext8) ''7''"
    and same: "default_config ext8 = default_config ext7"
    and net: "net = mnist_graph c1w c1b c2w c2b f1w f1b f2w f2b"
    and cfg: "cfg = (default_config ext7)\<lparr>max_workspace_size := GiB 1\<rparr>"
  shows "build_engine ext7 weights w =
           (Inr (Built net cfg),
            w\<lparr>calls := calls w @ [Builder, Create_network (EXPLICIT_BATCH ext7),
                 Create_builder_config, Runtime, Populate_network, Build_engine net cfg]\<rparr>) \<and>
         build_engine ext8 weights w =
           (Inr (Deserialized [Serialized_network net cfg]),
            w\<lparr>calls := calls w @ [Builder, Create_network (EXPLICIT_BATCH ext8),
                 Create_builder_config, Runtime, Populate_network,
                 Build_serialized_network net cfg,
                 Deserialize_cuda_engine [Serialized_network net cfg]]\<rparr>) \<and>
         max_workspace_size cfg = GiB 1"
proof -
  have p: "populate_network create_network weights = Inr net"
    unfolding net by (rule populate_network_fresh [OF assms(1-8)])
  have t7: "trt_v7 ext7" using v7 by (simp add: trt_v7_def)
  have t8: "\<not> trt_v7 ext8" using v8 by (simp add: trt_v7_def)
  show ?thesis
    by (simp add: build_engine_v7 [OF p t7] build_engine_v8 [OF p t8] same cfg)
qed

text \<open>The theorem at a concrete input.\<close>

theorem build_engine_branches_witness:
  "build_engine (sample_externals ''7.2.3.4'') sample_weights (initial_world Map.empty) =
     (Inr (Built
            (mnist_graph (zeros [20, 1, 5, 5]) (zeros [20]) (zeros [50, 20, 5, 5]) (zeros [50])
               (zeros [500, 800]) (zeros [500]) (zeros [10, 500]) (zeros [10]))
            \<lparr>max_workspace_size = 1073741824, flags = 0\<rparr>),
      \<lparr>calls = [Builder, Create_network 1, Create_builder_config, Runtime, Populate_network,
                Build_engine
                  (mnist_graph (zeros [20, 1, 5, 5]) (zeros [20]) (zeros [50, 20, 5, 5])
                     (zeros [50]) (zeros [500, 800]) (zeros [500]) (zeros [10, 500]) (zeros [10]))
                  \<lparr>max_workspace_size = 1073741824, flags = 0\<rparr>],
       files = Map.empty, stdout = []\<rparr>) \<and>
   fst (build_engine (sample_externals ''8.0.1.6'') sample_weights (initial_world Map.empty)) =
     Inr (Deserialized
           [Serialized_network
              (mnist_graph (zeros [20, 1, 5, 5]) (zeros [20]) (zeros [50, 20, 5, 5]) (zeros [50])
                 (zeros [500, 800]) (zeros [500]) (zeros [10, 500]) (zeros [10]))
              \<lparr>max_workspace_size = 1073741824, flags = 0\<rparr>])"
  using build_engine_branches [OF sample_weights_keys, of "sample_externals ''7.2.3.4''"
      "sample_externals ''8.0.1.6''" _ _ "initial_world Map.empty"]
  by (simp add: sample_externals_simps startswith_def initial_world_def GiB_def)

section \<open>The run of the driver\<close>

text \<open>
  Claim C1, as stated: the driver trains, extracts the weights, builds the graph, compiles
  the engine, serializes it to disk, deserializes it from disk, allocates buffers, draws
  one random test case, runs one inference, compares the predicted class (the arg-max of
  the output vector) against the expected label, and prints both as two lines, each
  stage once and in this order. On a run that draws a test case with label 7 and
  predicts class 3, \<^verbatim>\<open>main\<close> ends normally and prints exactly the two lines: the
  stages carried out are all of these but the comparison, since \<^verbatim>\<open>main\<close> computes
  the arg-max and prints the label and the prediction, and never relates one to the
  other. The sequence of the run differs from the sequence of the specification.
\<close>

theorem main_compares_counterexample:
  "fst (main (sample_externals ''8.0.1.6'') (initial_world Map.empty)) = Inr () \<and>
   stdout (snd (main (sample_externals ''8.0.1.6'') (initial_world Map.empty))) =
     [''Test Case: 7'', ''Prediction: 3''] \<and>
   stages (calls (snd (main (sample_externals ''8.0.1.6'') (initial_world Map.empty)))) =
     [Train, Extract_weights, Build_graph, Compile_engine, Serialize_to_disk,
      Deserialize_from_disk, Allocate_stage, Draw_test_case, Run_inference, Take_argmax,
      Print_line, Print_line] \<and>
   stages (calls (snd (main (sample_externals ''8.0.1.6'') (initial_world Map.empty)))) \<noteq>
     spec_driver_sequence"
  by (simp add: sample_run observer_simps spec_driver_sequence_def)

text \<open>
  Claim C1, amended: in every run of \<^verbatim>\<open>main\<close>, the stages carried out are an initial
  part of: train, extract weights, build graph, compile engine, serialize to disk,
  deserialize from disk, allocate buffers, draw one test case, run one inference, take
  the arg-max of the output vector, print two lines; a run stops early only with an
  error. A run that ends normally has carried out all of them, once each and in this
  order, and its two lines are the expected label of the test case and the predicted
  class, the arg-max of the one output vector of the inference. No stage is repeated,
  and there is no comparison stage.
\<close>

theorem main_stage_sequence:
  fixes ext :: "('f::linorder) externals"
  shows "prefix (stages (calls (snd (main ext (initial_world fs)))))
           [Train, Extract_weights, Build_graph, Compile_engine, Serialize_to_disk,
            Deserialize_from_disk, Allocate_stage, Draw_test_case, Run_inference,
            Take_argmax, Print_line, Print_line] \<and>
         (fst (main ext (initial_world fs)) = Inr () \<longrightarrow>
            stages (calls (snd (main ext (initial_world fs)))) =
              [Train, Extract_weights, Build_graph, Compile_engine, Serialize_to_disk,
            Deserialize_from_disk, Allocate_stage, Draw_test_case, Run_inference,
            Take_argmax, Print_line, Print_line] \<and>
            (\<exists>e inputs out pred.
               Do_inference_v2 e inputs \<in> set (calls (snd (main ext (initial_world fs)))) \<and>
               execute ext e inputs = [out] \<and> argmax (isnan ext) out = Inr pred \<and>
               stdout (snd (main ext (initial_world fs))) =
                 [''Test Case: '' @ str (snd (random_testcase ext)),
                  ''Prediction: '' @ str pred]))"
proof (cases rule: build_engine_cases [of "trained_weights ext" ext])
  case (fail e)
  show ?thesis
    by (simp add: main_build_fails [OF fail(1)] initial_world_def observer_simps)
next
  case (v7 net)
  show ?thesis
    by (rule main_stages_after_build [OF v7(3)])
      (simp_all add: initial_world_def observer_simps)
next
  case (v8 net)
  show ?thesis
    by (rule main_stages_after_build [OF v8(3)])
      (simp_all add: initial_world_def observer_simps)
qed

text \<open>The theorem at a concrete input.\<close>

theorem main_stage_sequence_witness:
  "fst (main (sample_externals ''7.2.3.4'') (initial_world Map.empty)) = Inr () \<and>
   stages (calls (snd (main (sample_externals ''7.2.3.4'') (initial_world Map.empty)))) =
     [Train, Extract_weights, Build_graph, Compile_engine, Serialize_to_disk,
      Deserialize_from_disk, Allocate_stage, Draw_test_case, Run_inference, Take_argmax,
      Print_line, Print_line] \<and>
   stdout (snd (main (sample_externals ''7.2.3.4'') (initial_world Map.empty))) =
     [''Test Case: 7'', ''Prediction: 3'']"
proof -
  have n: "fst (main (sample_externals ''7.2.3.4'') (initial_world Map.empty)) = Inr ()"
    by (rule sample_main_normal)
  have s: "str 7 = ''7''" "str 3 = ''3''"
    by (simp_all add: str.simps digit_def)
  from main_stage_sequence [of "sample_externals ''7.2.3.4''" Map.empty] n
  obtain e inputs out pred where
    1: "stages (calls (snd (main (sample_externals ''7.2.3.4'') (initial_world Map.empty)))) =
     [Train, Extract_weights, Build_graph, Compile_engine, Serialize_to_disk,
      Deserialize_from_disk, Allocate_stage, Draw_test_case, Run_inference, Take_argmax,
      Print_line, Print_line]"
    and 2: "execute (sample_externals ''7.2.3.4'') e inputs = [out]"
    and 3: "argmax (isnan (sample_externals ''7.2.3.4'')) out = Inr pred"
    and 4: "stdout (snd (main (sample_externals ''7.2.3.4'') (initial_world Map.empty))) =
                 [''Test Case: '' @ str (snd (random_testcase (sample_externals ''7.2.3.4''))),
                  ''Prediction: '' @ str pred]"
    by blast
  from 2 have "out = [0, 1, 0, 9, 0, 0, 0, 2, 0, 0]"
    by (simp add: sample_externals_simps)
  with 3 have "pred = 3"
    by (simp add: sample_argmax)
  with n 1 4 show ?thesis
    by (simp add: sample_externals_simps s)
qed

text \<open>
  Claim C10: in every run of \<^verbatim>\<open>main\<close> in which \<^verbatim>\<open>build_engine\<close> returns an
  engine, the file opened for writing and the file opened for reading are both
  \<open>mnist.trt\<close>, the file then holds the serialization of that engine, and every engine
  that buffers are allocated for, that an execution context is created of or that the
  inference runs on is the engine deserialized from the content of that file: the first
  two uses are always reached, the inference is reached unless the run stops with an
  error before it, and a run that ends normally has all three. The engine that
  \<^verbatim>\<open>build_engine\<close> returned is used for none of them.
\<close>

theorem main_uses_reloaded_engine:
  fixes ext :: "('f::linorder) externals"
  assumes "fst (build_engine ext (trained_weights ext) w0) = Inr e0"
  shows "files_opened (calls (snd (main ext (initial_world fs)))) =
           [(''mnist.trt'', ''wb''), (''mnist.trt'', ''rb'')] \<and>
         files (snd (main ext (initial_world fs))) ''mnist.trt'' =
           Some [Serialized_engine e0] \<and>
         (engines_used (calls (snd (main ext (initial_world fs)))) =
            [Deserialized [Serialized_engine e0], Deserialized [Serialized_engine e0]] \<or>
          engines_used (calls (snd (main ext (initial_world fs)))) =
            [Deserialized [Serialized_engine e0], Deserialized [Serialized_engine e0],
             Deserialized [Serialized_engine e0]]) \<and>
         (fst (main ext (initial_world fs)) = Inr () \<longrightarrow>
            engines_used (calls (snd (main ext (initial_world fs)))) =
              [Deserialized [Serialized_engine e0], Deserialized [Serialized_engine e0],
               Deserialized [Serialized_engine e0]]) \<and>
         e0 \<notin> set (engines_used (calls (snd (main ext (initial_world fs)))))"
proof -
  have m: "files_opened (calls (snd (main ext (initial_world fs)))) =
           [(''mnist.trt'', ''wb''), (''mnist.trt'', ''rb'')] \<and>
         files (snd (main ext (initial_world fs))) ''mnist.trt'' =
           Some [Serialized_engine e0] \<and>
         (engines_used (calls (snd (main ext (initial_world fs)))) =
            [Deserialized [Serialized_engine e0], Deserialized [Serialized_engine e0]] \<or>
          engines_used (calls (snd (main ext (initial_world fs)))) =
            [Deserialized [Serialized_engine e0], Deserialized [Serialized_engine e0],
             Deserialized [Serialized_engine e0]]) \<and>
         (fst (main ext (initial_world fs)) = Inr () \<longrightarrow>
            engines_used (calls (snd (main ext (initial_world fs)))) =
              [Deserialized [Serialized_engine e0], Deserialized [Serialized_engine e0],
               Deserialized [Serialized_engine e0]])"
  proof (cases rule: build_engine_cases [of "trained_weights ext" ext])
    case (fail e)
    with assms show ?thesis by simp
  next
    case (v7 net)
    from assms v7(3) [of w0]
    have e: "Built net ((default_config ext)\<lparr>max_workspace_size := GiB 1\<rparr>) = e0"
      by simp
    show ?thesis
      by (rule main_uses_after_build [OF v7(3) [unfolded e]])
        (simp_all add: initial_world_def observer_simps)
  next
    case (v8 net)
    from assms v8(3) [of w0]
    have e: "Deserialized
               [Serialized_network net ((default_config ext)\<lparr>max_workspace_size := GiB 1\<rparr>)] =
             e0"
      by simp
    show ?thesis
      by (rule main_uses_after_build [OF v8(3) [unfolded e]])
        (simp_all add: initial_world_def observer_simps)
  qed
  have "e0 \<notin> set (engines_used (calls (snd (main ext (initial_world fs)))))"
    using m reload_neq [of e0] by auto
  with m show ?thesis by simp
qed

text \<open>The theorem at a concrete input.\<close>

theorem main_uses_reloaded_engine_witness:
  "fst (build_engine (sample_externals ''7.2.3.4'')
          (trained_weights (sample_externals ''7.2.3.4'')) (initial_world Map.empty)) =
     Inr (Built
            (mnist_graph (zeros [20, 1, 5, 5]) (zeros [20]) (zeros [50, 20, 5, 5]) (zeros [50])
             (zeros [500, 800]) (zeros [500]) (zeros [10, 500]) (zeros [10]))
            \<lparr>max_workspace_size = 1073741824, flags = 0\<rparr>) \<and>
   fst (main (sample_externals ''7.2.3.4'') (initial_world Map.empty)) = Inr () \<and>
   files (snd (main (sample_externals ''7.2.3.4'') (initial_world Map.empty))) ''mnist.trt'' =
     Some [Serialized_engine (Built
            (mnist_graph (zeros [20, 1, 5, 5]) (zeros [20]) (zeros [50, 20, 5, 5]) (zeros [50])
             (zeros [500, 800]) (zeros [500]) (zeros [10, 500]) (zeros [10]))
            \<lparr>max_workspace_size = 1073741824, flags = 0\<rparr>)] \<and>
   engines_used (calls (snd (main (sample_externals ''7.2.3.4'') (initial_world Map.empty)))) =
     replicate 3 (Deserialized [Serialized_engine (Built
            (mnist_graph (zeros [20, 1, 5, 5]) (zeros [20]) (zeros [50, 20, 5, 5]) (zeros [50])
             (zeros [500, 800]) (zeros [500]) (zeros [10, 500]) (zeros [10]))
            \<lparr>max_workspace_size = 1073741824, flags = 0\<rparr>)])"
proof -
  have b: "fst (build_engine (sample_externals ''7.2.3.4'')
          (trained_weights (sample_externals ''7.2.3.4'')) (initial_world Map.empty)) =
     Inr (Built
            (mnist_graph (zeros [20, 1, 5, 5]) (zeros [20]) (zeros [50, 20, 5, 5]) (zeros [50])
             (zeros [500, 800]) (zeros [500]) (zeros [10, 500]) (zeros [10]))
            \<lparr>max_workspace_size = 1073741824, flags = 0\<rparr>)"
    by (simp add: build_engine_v7 [OF sample_populate sample_version_7]
        sample_externals_simps(3) GiB_def)
  have n: "fst (main (sample_externals ''7.2.3.4'') (initial_world Map.empty)) = Inr ()"
    by (rule sample_main_normal)
  from main_uses_reloaded_engine [OF b, of Map.empty] b n show ?thesis
    by (simp add: numeral_3_eq_3)
qed

end
